theory Spec2Isabelle
  imports Complex_Main "HOL-Library.Multiset"
begin

section \<open>Data model of \<open>server.js\<close>\<close>

text \<open>
  The quiz server keeps every session in one in-memory \<open>Map\<close>. Socket ids and
  session ids are strings. JavaScript numbers are modelled exactly: time values are
  rationals (a client may send a fractional time limit), scores are integers (sums of
  \<open>Math.round\<close> results); floating-point rounding error is not modelled.
  A submitted answer is an integer or \<open>null\<close> (\<open>None\<close>), a time limit is a
  number or absent. A string is the list of its UTF-16 code units, each below 256 (the
  Latin-1 range, which a \<open>char\<close> holds).
\<close>

type_synonym socketId = string
type_synonym sessionId = string
type_synonym handle = nat

record question =
  qtext :: string
  options :: "string list"
  correctIndex :: int

record player =
  name :: string
  score :: int
  currentAnswer :: "int option"
  answerTime :: "rat option"

datatype status = lobby | playing | finished

text \<open>
  \<open>players\<close> is a JavaScript \<open>Map\<close>: an association list in insertion order
  with distinct keys. \<open>timeLimit\<close> is \<open>None\<close> until \<open>host:start\<close> assigns
  the property. \<open>timer\<close> holds the handle returned by \<open>setInterval\<close>.
\<close>

record session =
  sessId :: sessionId
  quizName :: string
  hostSocketId :: "socketId option"
  questions :: "question list"
  players :: "(socketId \<times> player) list"
  status :: status
  currentQuestionIndex :: nat
  timer :: "handle option"
  timeLeft :: rat
  timeLimit :: "rat option"

text \<open>The ad hoc fields the handlers attach to a socket object.\<close>

record socket =
  sessionId :: "sessionId option"
  isHost :: bool
  playerName :: "string option"

definition freshSocket :: socket where
  "freshSocket = \<lparr>sessionId = None, isHost = False, playerName = None\<rparr>"

subsection \<open>Outbound events\<close>

text \<open>
  The error messages of the source are \<open>Session not found\<close>, \<open>Quiz has already
  started\<close>, the duplicate-name message, \<open>Not authorized\<close> and \<open>Need at least one
  player\<close>; they are named here after the spec's taxonomy.
\<close>

datatype error = NotFound | AlreadyStarted | DuplicateName | Unauthorized | NoPlayers

text \<open>An element of a JavaScript array of numbers; a hole of the array is \<open>None\<close>.\<close>

datatype jsnum = Num int | NaN

record result =
  res_name :: string
  res_answer :: "int option"
  res_isCorrect :: bool
  res_pointsEarned :: int
  res_totalScore :: int
  res_answerTime :: "rat option"

datatype target = ToSocket socketId | ToRoom sessionId | ToHost "socketId option"

datatype message =
    ErrorMsg error
  | HostSession sessionId string "question list" "(string \<times> int) list" status
  | LobbyPlayers string "(string \<times> int) list"
  | QuizQuestion nat nat string "string list" rat nat
  | HostCorrectAnswer int
  | QuizTimer rat
  | HostAnswerCount nat nat
  | HostAnswerStats "jsnum option list"
  | QuizResults int "string option" "result list"
  | QuizCountdown int bool
  | QuizFinished "(nat \<times> string \<times> int) list" "(string \<times> int) list"
  | SessionEnded string

subsection \<open>Timers and the process state\<close>

text \<open>
  A live \<open>setInterval\<close>/\<open>setTimeout\<close> task is the closure it runs: the question
  timer of \<open>sendQuestion\<close>, the five-second countdown of \<open>endQuestion\<close> with its
  local \<open>countdownLeft\<close> and \<open>isLastQuestion\<close>, or the cleanup timeout of
  \<open>endQuiz\<close>. Each closure captures the session object, not its registry entry.
\<close>

datatype task =
    QuestionTick sessionId
  | CountdownTick sessionId int bool
  | CleanupTimeout sessionId

text \<open>
  \<open>sessions\<close> is the key set of the registry \<open>Map\<close>; \<open>heap\<close> holds the session
  objects, addressed by their id, so that a closure still reaches a session that was
  deleted from the registry. Ids are the uuid prefixes of the source and assumed unique.
  A thrown \<open>TypeError\<close> is not caught anywhere in the source, so it ends the run.
\<close>

record world =
  sessions :: "sessionId set"
  heap :: "sessionId \<rightharpoonup> session"
  sockets :: "socketId \<Rightarrow> socket"
  timers :: "handle \<rightharpoonup> task"
  nextHandle :: handle
  outbox :: "(target \<times> message) list"

datatype exn = TypeError

definition initWorld :: world where
  "initWorld = \<lparr>sessions = {}, heap = Map.empty, sockets = (\<lambda>_. freshSocket),
     timers = Map.empty, nextHandle = 0, outbox = []\<rparr>"

definition emit :: "target \<Rightarrow> message \<Rightarrow> world \<Rightarrow> world" where
  "emit t m w = w\<lparr>outbox := outbox w @ [(t, m)]\<rparr>"

definition sessions_get :: "world \<Rightarrow> sessionId option \<Rightarrow> session option" where
  "sessions_get w k =
     (case k of None \<Rightarrow> None | Some i \<Rightarrow> if i \<in> sessions w then heap w i else None)"

definition store :: "session \<Rightarrow> world \<Rightarrow> world" where
  "store s w = w\<lparr>heap := (heap w)(sessId s \<mapsto> s)\<rparr>"

definition clearInterval :: "handle option \<Rightarrow> world \<Rightarrow> world" where
  "clearInterval t w = (case t of None \<Rightarrow> w | Some h \<Rightarrow> w\<lparr>timers := (timers w)(h := None)\<rparr>)"

definition setTimer :: "task \<Rightarrow> world \<Rightarrow> world" where
  "setTimer k w = w\<lparr>timers := (timers w)(nextHandle w \<mapsto> k), nextHandle := Suc (nextHandle w)\<rparr>"

subsection \<open>Library functions of JavaScript\<close>

fun Map_set :: "('k \<times> 'v) list \<Rightarrow> 'k \<Rightarrow> 'v \<Rightarrow> ('k \<times> 'v) list" where
  "Map_set [] k v = [(k, v)]"
| "Map_set ((k', v') # ps) k v =
     (if k' = k then (k, v) # ps else (k', v') # Map_set ps k v)"

definition Map_delete :: "('k \<times> 'v) list \<Rightarrow> 'k \<Rightarrow> ('k \<times> 'v) list" where
  "Map_delete ps k = filter (\<lambda>e. fst e \<noteq> k) ps"

definition Map_get :: "('k \<times> 'v) list \<Rightarrow> 'k \<Rightarrow> 'v option" where
  "Map_get ps k = map_of ps k"

text \<open>
  \<open>toLowerCase\<close>. Among the code units below 256 the letters with a lower-case form
  are \<open>A\<close> to \<open>Z\<close> (65 to 90) and the accented capitals 192 to 214 and 216 to 222;
  each has its lower-case form 32 places further up, and every other code unit is left
  as it is.
\<close>

definition lowerChar :: "char \<Rightarrow> char" where
  "lowerChar c =
     (let n = (of_char c :: nat)
      in if (65 \<le> n \<and> n \<le> 90) \<or> (192 \<le> n \<and> n \<le> 214) \<or> (216 \<le> n \<and> n \<le> 222)
         then char_of (n + 32) else c)"

definition toLowerCase :: "string \<Rightarrow> string" where
  "toLowerCase s = map lowerChar s"

text \<open>\<open>Math.round\<close> rounds to the nearest integer, a half towards plus infinity.\<close>

definition Math_round :: "rat \<Rightarrow> int" where
  "Math_round x = \<lfloor>x + 1 / 2\<rfloor>"

text \<open>Reading \<open>xs[i]\<close>: \<open>undefined\<close> outside the array.\<close>

definition at_index :: "'a list \<Rightarrow> int \<Rightarrow> 'a option" where
  "at_index xs i = (if 0 \<le> i \<and> nat i < length xs then Some (xs ! nat i) else None)"

text \<open>
  \<open>xs[a]++\<close> on an array of numbers: inside the array the element is incremented
  (a hole reads \<open>undefined\<close> and becomes \<open>NaN\<close>); at an index past the end the array
  grows with holes and the new element is \<open>NaN\<close>; a key that is no array index
  (negative, or beyond \<open>2^32 - 2\<close>) only adds a property and leaves the elements alone.
\<close>

definition postInc :: "jsnum option \<Rightarrow> jsnum" where
  "postInc v = (case v of Some (Num n) \<Rightarrow> Num (n + 1) | _ \<Rightarrow> NaN)"

definition Array_inc :: "jsnum option list \<Rightarrow> int \<Rightarrow> jsnum option list" where
  "Array_inc xs a =
     (if a < 0 \<or> 4294967295 \<le> a then xs
      else if nat a < length xs then xs[nat a := Some (postInc (xs ! nat a))]
      else xs @ replicate (nat a - length xs) None @ [Some NaN])"

section \<open>Game logic functions\<close>

text \<open>\<open>session.timeLimit || 30\<close>: an unset or zero limit reads as 30.\<close>

definition effTimeLimit :: "session \<Rightarrow> rat" where
  "effTimeLimit s = (case timeLimit s of None \<Rightarrow> 30 | Some t \<Rightarrow> if t = 0 then 30 else t)"

definition resetAnswers :: "(socketId \<times> player) list \<Rightarrow> (socketId \<times> player) list" where
  "resetAnswers ps = map (\<lambda>(c, p). (c, p\<lparr>currentAnswer := None, answerTime := None\<rparr>)) ps"

definition roster :: "(socketId \<times> player) list \<Rightarrow> (string \<times> int) list" where
  "roster ps = map (\<lambda>(c, p). (name p, score p)) ps"

text \<open>
  \<open>sendQuestion\<close>: reading \<open>question.question\<close> of a missing question throws.
  The new interval is stored in \<open>session.timer\<close>; nothing is cleared first.
\<close>

definition sendQuestion :: "session \<Rightarrow> world \<Rightarrow> exn + world" where
  "sendQuestion s w =
     (case at_index (questions s) (int (currentQuestionIndex s)) of
        None \<Rightarrow> Inl TypeError
      | Some q \<Rightarrow>
          let limit = effTimeLimit s;
              s' = s\<lparr>players := resetAnswers (players s), timeLeft := limit,
                     timer := Some (nextHandle w)\<rparr>;
              w1 = emit (ToRoom (sessId s))
                     (QuizQuestion (currentQuestionIndex s + 1) (length (questions s))
                        (qtext q) (options q) limit (length (players s))) w;
              w2 = emit (ToHost (hostSocketId s)) (HostCorrectAnswer (correctIndex q)) w1
          in Inr (setTimer (QuestionTick (sessId s)) (store s' w2)))"

text \<open>The scoring rule inside the loop of \<open>endQuestion\<close>.\<close>

definition MAX_POINTS :: rat where "MAX_POINTS = 1000"
definition MIN_POINTS :: rat where "MIN_POINTS = 500"

definition isCorrect :: "player \<Rightarrow> question \<Rightarrow> bool" where
  "isCorrect p q = (currentAnswer p = Some (correctIndex q))"

definition pointsEarned :: "player \<Rightarrow> question \<Rightarrow> rat \<Rightarrow> int" where
  "pointsEarned p q TIME_LIMIT =
     (case answerTime p of
        None \<Rightarrow> 0
      | Some t \<Rightarrow>
          if isCorrect p q
          then Math_round (MIN_POINTS + (t / TIME_LIMIT) * (MAX_POINTS - MIN_POINTS))
          else 0)"

definition scorePlayer :: "question \<Rightarrow> rat \<Rightarrow> player \<Rightarrow> player" where
  "scorePlayer q TIME_LIMIT p = p\<lparr>score := score p + pointsEarned p q TIME_LIMIT\<rparr>"

definition resultOf :: "question \<Rightarrow> rat \<Rightarrow> player \<Rightarrow> result" where
  "resultOf q TIME_LIMIT p =
     \<lparr>res_name = name p, res_answer = currentAnswer p, res_isCorrect = isCorrect p q,
      res_pointsEarned = pointsEarned p q TIME_LIMIT,
      res_totalScore = score p + pointsEarned p q TIME_LIMIT,
      res_answerTime = answerTime p\<rparr>"

text \<open>
  \<open>endQuestion\<close>: reading \<open>question.correctIndex\<close> of a missing question throws
  before anything is changed. The comparator \<open>b.totalScore - a.totalScore\<close> with the
  stable \<open>Array.prototype.sort\<close> is a stable sort on the negated score. The
  countdown interval is kept in a local constant only.
\<close>

definition endQuestion :: "session \<Rightarrow> world \<Rightarrow> exn + world" where
  "endQuestion s w =
     (case at_index (questions s) (int (currentQuestionIndex s)) of
        None \<Rightarrow> Inl TypeError
      | Some q \<Rightarrow>
          let TIME_LIMIT = effTimeLimit s;
              results = map (\<lambda>(c, p). resultOf q TIME_LIMIT p) (players s);
              s' = s\<lparr>players := map (\<lambda>(c, p). (c, scorePlayer q TIME_LIMIT p)) (players s),
                     currentQuestionIndex := currentQuestionIndex s + 1\<rparr>;
              isLastQuestion = (length (questions s) \<le> currentQuestionIndex s');
              w1 = emit (ToRoom (sessId s))
                     (QuizResults (correctIndex q) (at_index (options q) (correctIndex q))
                        (sort_key (\<lambda>r. - res_totalScore r) results)) w
          in Inr (setTimer (CountdownTick (sessId s) 5 isLastQuestion) (store s' w1)))"

definition standings :: "session \<Rightarrow> (string \<times> int) list" where
  "standings s = sort_key (\<lambda>e. - snd e) (roster (players s))"

definition podium :: "session \<Rightarrow> (nat \<times> string \<times> int) list" where
  "podium s = map (\<lambda>(index, e). (index + 1, fst e, snd e)) (enumerate 0 (take 3 (standings s)))"

definition endQuiz :: "session \<Rightarrow> world \<Rightarrow> world" where
  "endQuiz s w =
     (let s' = s\<lparr>status := finished\<rparr>;
          w1 = emit (ToRoom (sessId s)) (QuizFinished (podium s') (standings s')) (store s' w)
      in setTimer (CleanupTimeout (sessId s)) w1)"

section \<open>Timer callbacks\<close>

text \<open>
  \<open>fire h\<close> runs the callback of the task registered under \<open>h\<close>; a handle that
  was cleared has no task and nothing runs. The question timer clears
  \<open>session.timer\<close>, whichever interval that is.
\<close>

definition questionTick :: "session \<Rightarrow> world \<Rightarrow> exn + world" where
  "questionTick s w =
     (let s1 = s\<lparr>timeLeft := timeLeft s - 1\<rparr>;
          w1 = emit (ToRoom (sessId s)) (QuizTimer (timeLeft s1)) (store s1 w)
      in if timeLeft s1 \<le> 0
         then endQuestion (s1\<lparr>timer := None\<rparr>)
                (store (s1\<lparr>timer := None\<rparr>) (clearInterval (timer s1) w1))
         else Inr w1)"

definition countdownTick :: "handle \<Rightarrow> int \<Rightarrow> bool \<Rightarrow> session \<Rightarrow> world \<Rightarrow> exn + world" where
  "countdownTick h countdownLeft isLastQuestion s w =
     (let w1 = emit (ToRoom (sessId s)) (QuizCountdown countdownLeft isLastQuestion) w
      in if countdownLeft - 1 < 0
         then let w2 = clearInterval (Some h) w1
              in if isLastQuestion then Inr (endQuiz s w2)
                 else if status s = playing then sendQuestion s w2
                 else Inr w2
         else Inr (w1\<lparr>timers := (timers w1)(h \<mapsto>
                        CountdownTick (sessId s) (countdownLeft - 1) isLastQuestion)\<rparr>))"

definition cleanup :: "handle \<Rightarrow> sessionId \<Rightarrow> world \<Rightarrow> world" where
  "cleanup h i w = (clearInterval (Some h) w)\<lparr>sessions := sessions w - {i}\<rparr>"

definition fire :: "handle \<Rightarrow> world \<Rightarrow> exn + world" where
  "fire h w =
     (case timers w h of
        None \<Rightarrow> Inr w
      | Some (QuestionTick i) \<Rightarrow>
          (case heap w i of None \<Rightarrow> Inr w | Some s \<Rightarrow> questionTick s w)
      | Some (CountdownTick i n l) \<Rightarrow>
          (case heap w i of None \<Rightarrow> Inr w | Some s \<Rightarrow> countdownTick h n l s w)
      | Some (CleanupTimeout i) \<Rightarrow> Inr (cleanup h i w))"

section \<open>Session creation\<close>

text \<open>
  The object both \<open>POST /api/session\<close> and \<open>POST /api/import\<close> put in the
  registry, given the id drawn and the sanitized name. The first endpoint refuses an
  empty question list, the second accepts one.
\<close>

definition newSession :: "sessionId \<Rightarrow> string \<Rightarrow> question list \<Rightarrow> session" where
  "newSession i nm qs =
     \<lparr>sessId = i, quizName = nm, hostSocketId = None, questions = qs, players = [],
      status = lobby, currentQuestionIndex = 0, timer = None, timeLeft = 0,
      timeLimit = None\<rparr>"

definition createSession :: "sessionId \<Rightarrow> string \<Rightarrow> question list \<Rightarrow> world \<Rightarrow> world" where
  "createSession i nm qs w = (store (newSession i nm qs) w)\<lparr>sessions := insert i (sessions w)\<rparr>"

section \<open>Socket event handlers\<close>

definition hostJoin :: "socketId \<Rightarrow> sessionId \<Rightarrow> world \<Rightarrow> world" where
  "hostJoin c i w =
     (case sessions_get w (Some i) of
        None \<Rightarrow> emit (ToSocket c) (ErrorMsg NotFound) w
      | Some s \<Rightarrow>
          let s' = s\<lparr>hostSocketId := Some c\<rparr>;
              w1 = (store s' w)\<lparr>sockets := (sockets w)
                     (c := (sockets w c)\<lparr>sessionId := Some i, isHost := True\<rparr>)\<rparr>
          in emit (ToSocket c)
               (HostSession (sessId s') (quizName s') (questions s') (roster (players s'))
                  (status s')) w1)"

definition nameMatches :: "string \<Rightarrow> player \<Rightarrow> bool" where
  "nameMatches nm p = (toLowerCase (name p) = toLowerCase nm)"

text \<open>
  \<open>playerJoin\<close> returns the error it emitted, if any, next to the new state. The
  reconnect branch deletes the first entry whose name matches and sets the same
  player object under the new socket id. A new player object has no \<open>answerTime\<close>
  property until \<open>host:start\<close> writes null into it; as long as it is missing the
  player's \<open>currentAnswer\<close> is null, so the scoring never reads it, and it is
  \<open>None\<close> here.
\<close>

definition playerJoin :: "socketId \<Rightarrow> sessionId \<Rightarrow> string \<Rightarrow> world \<Rightarrow> error option \<times> world" where
  "playerJoin c i nm w =
     (case sessions_get w (Some i) of
        None \<Rightarrow> (Some NotFound, emit (ToSocket c) (ErrorMsg NotFound) w)
      | Some s \<Rightarrow>
          let existingPlayer = find (nameMatches nm) (map snd (players s));
              isReconnect = (existingPlayer \<noteq> None)
          in if status s \<noteq> lobby \<and> \<not> isReconnect
             then (Some AlreadyStarted, emit (ToSocket c) (ErrorMsg AlreadyStarted) w)
             else if \<not> isReconnect \<and>
                     toLowerCase nm \<in> set (map (\<lambda>e. toLowerCase (name (snd e))) (players s))
             then (Some DuplicateName, emit (ToSocket c) (ErrorMsg DuplicateName) w)
             else
               let ps = (case find (\<lambda>e. nameMatches nm (snd e)) (players s) of
                           None \<Rightarrow> Map_set (players s) c
                                    \<lparr>name = nm, score = 0, currentAnswer = None,
                                     answerTime = None\<rparr>
                         | Some (oldSocketId, playerData) \<Rightarrow>
                             Map_set (Map_delete (players s) oldSocketId) c playerData);
                   s' = s\<lparr>players := ps\<rparr>;
                   w1 = (store s' w)\<lparr>sockets := (sockets w)
                          (c := (sockets w c)\<lparr>sessionId := Some i, isHost := False,
                                                 playerName := Some nm\<rparr>)\<rparr>
               in (None, emit (ToRoom i) (LobbyPlayers (quizName s') (roster (players s'))) w1))"

text \<open>
  \<open>host:start\<close>. \<open>data?.timeLimit || 30\<close> reads an absent or zero limit as 30.
  There is no check of \<open>session.status\<close>.
\<close>

definition clampTimeLimit :: "rat option \<Rightarrow> rat" where
  "clampTimeLimit d =
     (let lim = (case d of None \<Rightarrow> 30 | Some t \<Rightarrow> if t = 0 then 30 else t)
      in min (max lim 5) 120)"

definition hostStart :: "socketId \<Rightarrow> rat option \<Rightarrow> world \<Rightarrow> exn + error option \<times> world" where
  "hostStart c d w =
     (case sessions_get w (sessionId (sockets w c)) of
        None \<Rightarrow> Inr (Some Unauthorized, emit (ToSocket c) (ErrorMsg Unauthorized) w)
      | Some s \<Rightarrow>
          if Some c \<noteq> hostSocketId s
          then Inr (Some Unauthorized, emit (ToSocket c) (ErrorMsg Unauthorized) w)
          else if players s = []
          then Inr (Some NoPlayers, emit (ToSocket c) (ErrorMsg NoPlayers) w)
          else
            let s' = s\<lparr>timeLimit := Some (clampTimeLimit d), status := playing,
                       currentQuestionIndex := 0, players := resetAnswers (players s)\<rparr>
            in map_sum id (Pair None) (sendQuestion s' (store s' w)))"

text \<open>The tally of \<open>player:answer\<close>: a fixed \<open>[0, 0, 0, 0]\<close> indexed by each raw answer.\<close>

definition answerStats :: "(socketId \<times> player) list \<Rightarrow> jsnum option list" where
  "answerStats ps =
     foldl (\<lambda>stats e. case currentAnswer (snd e) of None \<Rightarrow> stats | Some a \<Rightarrow> Array_inc stats a)
       [Some (Num 0), Some (Num 0), Some (Num 0), Some (Num 0)] ps"

definition answeredCount :: "(socketId \<times> player) list \<Rightarrow> nat" where
  "answeredCount ps = length (filter (\<lambda>e. currentAnswer (snd e) \<noteq> None) ps)"

text \<open>
  The update of the player in \<open>player:answer\<close>. The payload is stored as it comes;
  a \<open>null\<close> payload leaves \<open>currentAnswer\<close> null, which the test
  \<open>player.currentAnswer === null\<close> reads as no answer yet.
\<close>

definition recordAnswer :: "rat \<Rightarrow> int option \<Rightarrow> player \<Rightarrow> player" where
  "recordAnswer left answerIndex p =
     (if currentAnswer p = None
      then p\<lparr>answerTime := Some left, currentAnswer := answerIndex\<rparr>
      else p\<lparr>currentAnswer := answerIndex\<rparr>)"

definition playerAnswer :: "socketId \<Rightarrow> int option \<Rightarrow> world \<Rightarrow> world" where
  "playerAnswer c answerIndex w =
     (case sessionId (sockets w c) of
        None \<Rightarrow> w
      | Some i \<Rightarrow>
          (case sessions_get w (Some i) of
             None \<Rightarrow> w
           | Some s \<Rightarrow>
               if status s \<noteq> playing then w
               else (case Map_get (players s) c of
                       None \<Rightarrow> w
                     | Some p \<Rightarrow>
                         let s' = s\<lparr>players := Map_set (players s) c
                                                  (recordAnswer (timeLeft s) answerIndex p)\<rparr>;
                             w1 = emit (ToRoom i)
                                    (HostAnswerCount (answeredCount (players s'))
                                       (length (players s')))
                                    (store s' w)
                         in emit (ToHost (hostSocketId s'))
                              (HostAnswerStats (answerStats (players s'))) w1)))"

text \<open>
  \<open>host:skip\<close> checks the host binding only, clears \<open>session.timer\<close> if set and
  calls \<open>endQuestion\<close>.
\<close>

definition hostSkip :: "socketId \<Rightarrow> world \<Rightarrow> exn + world" where
  "hostSkip c w =
     (case sessions_get w (sessionId (sockets w c)) of
        None \<Rightarrow> Inr w
      | Some s \<Rightarrow>
          if Some c \<noteq> hostSocketId s then Inr w
          else endQuestion (s\<lparr>timer := None\<rparr>)
                 (store (s\<lparr>timer := None\<rparr>) (clearInterval (timer s) w)))"

text \<open>
  \<open>disconnect\<close> branches on the socket's own \<open>isHost\<close> flag. The socket object is
  gone afterwards.
\<close>

definition disconnect :: "socketId \<Rightarrow> world \<Rightarrow> world" where
  "disconnect c w =
     (let gone = (\<lambda>v. v\<lparr>sockets := (sockets v)(c := freshSocket)\<rparr>)
      in case sessionId (sockets w c) of
           None \<Rightarrow> gone w
         | Some i \<Rightarrow>
             (case sessions_get w (Some i) of
                None \<Rightarrow> gone w
              | Some s \<Rightarrow>
                  if isHost (sockets w c)
                  then gone ((emit (ToRoom i) (SessionEnded ''Host disconnected'')
                               (clearInterval (timer s) w))\<lparr>sessions := sessions w - {i}\<rparr>)
                  else
                    let s' = s\<lparr>players := Map_delete (players s) c\<rparr>
                    in gone (emit (ToRoom i)
                               (LobbyPlayers (quizName s') (roster (players s'))) (store s' w))))"

section \<open>The event loop\<close>

text \<open>
  Node runs one callback at a time to completion. An event is a message of a client,
  a disconnect, a session creation, or the expiry of a live timer; any interleaving of
  them is a run.
\<close>

datatype event =
    CreateSession sessionId string "question list"
  | HostJoin socketId sessionId
  | PlayerJoin socketId sessionId string
  | HostStart socketId "rat option"
  | PlayerAnswer socketId "int option"
  | HostSkip socketId
  | Disconnect socketId
  | TimerFires handle

fun step :: "world \<Rightarrow> event \<Rightarrow> exn + world" where
  "step w (CreateSession i nm qs) = Inr (createSession i nm qs w)"
| "step w (HostJoin c i) = Inr (hostJoin c i w)"
| "step w (PlayerJoin c i nm) = Inr (snd (playerJoin c i nm w))"
| "step w (HostStart c d) = map_sum id snd (hostStart c d w)"
| "step w (PlayerAnswer c a) = Inr (playerAnswer c a w)"
| "step w (HostSkip c) = hostSkip c w"
| "step w (Disconnect c) = Inr (disconnect c w)"
| "step w (TimerFires h) = fire h w"

fun run :: "world \<Rightarrow> event list \<Rightarrow> exn + world" where
  "run w [] = Inr w"
| "run w (e # es) = (case step w e of Inl x \<Rightarrow> Inl x | Inr w' \<Rightarrow> run w' es)"

section \<open>Properties named by the specification\<close>

text \<open>The scoring rule as the specification words it.\<close>

definition computePoints :: "bool \<Rightarrow> rat option \<Rightarrow> rat \<Rightarrow> int" where
  "computePoints correct timeRemaining limit =
     (case timeRemaining of
        None \<Rightarrow> 0
      | Some t \<Rightarrow> if \<not> correct then 0 else round (500 + (t / limit) * (1000 - 500)))"

text \<open>
  Successive submissions of one player within a question: each is the update
  \<open>recordAnswer\<close> of the \<open>player:answer\<close> handler, with the countdown value at
  that moment and the payload sent.
\<close>

fun submissions :: "player \<Rightarrow> (rat \<times> int option) list \<Rightarrow> player" where
  "submissions p [] = p"
| "submissions p ((left, a) # rest) = submissions (recordAnswer left a p) rest"

text \<open>
  The per-option tally: every recorded answer is one of the four options, and the
  tally the host should see has four counts that add up to the number of players who
  answered.
\<close>

definition answersInRange :: "(socketId \<times> player) list \<Rightarrow> bool" where
  "answersInRange ps =
     list_all (\<lambda>e. case currentAnswer (snd e) of None \<Rightarrow> True | Some a \<Rightarrow> 0 \<le> a \<and> a \<le> 3) ps"

definition optionCount :: "(socketId \<times> player) list \<Rightarrow> int \<Rightarrow> int" where
  "optionCount ps k = int (length (filter (\<lambda>e. currentAnswer (snd e) = Some k) ps))"

definition tallyOf :: "(socketId \<times> player) list \<Rightarrow> jsnum option list" where
  "tallyOf ps = map (\<lambda>k. Some (Num (optionCount ps k))) [0, 1, 2, 3]"

definition countOf :: "jsnum option \<Rightarrow> int option" where
  "countOf v = (case v of Some (Num n) \<Rightarrow> Some n | _ \<Rightarrow> None)"

definition wellFormedTally :: "jsnum option list \<Rightarrow> (socketId \<times> player) list \<Rightarrow> bool" where
  "wellFormedTally stats ps =
     (length stats = 4 \<and> list_all (\<lambda>v. countOf v \<noteq> None) stats \<and>
      sum_list (map (\<lambda>v. case countOf v of None \<Rightarrow> 0 | Some n \<Rightarrow> n) stats) = int (answeredCount ps))"

text \<open>The loop body of the tally in \<open>player:answer\<close>.\<close>

definition tallyStep :: "jsnum option list \<Rightarrow> socketId \<times> player \<Rightarrow> jsnum option list" where
  "tallyStep stats e = (case currentAnswer (snd e) of None \<Rightarrow> stats | Some a \<Rightarrow> Array_inc stats a)"

text \<open>
  The handles of the live countdown tasks of a session: question timers and
  inter-question countdowns.
\<close>

definition isCountdownOf :: "sessionId \<Rightarrow> task option \<Rightarrow> bool" where
  "isCountdownOf i t =
     (case t of
        Some (QuestionTick j) \<Rightarrow> j = i
      | Some (CountdownTick j n l) \<Rightarrow> j = i
      | _ \<Rightarrow> False)"

definition activeCountdowns :: "world \<Rightarrow> sessionId \<Rightarrow> handle list" where
  "activeCountdowns w i = filter (\<lambda>h. isCountdownOf i (timers w h)) [0..<nextHandle w]"

section \<open>Concrete runs\<close>

text \<open>The state the server is in after a list of events, from an empty registry.\<close>

definition worldAfter :: "event list \<Rightarrow> world" where
  "worldAfter es = (case run initWorld es of Inl _ \<Rightarrow> initWorld | Inr w \<Rightarrow> w)"

definition demoQuestion :: question where
  "demoQuestion = \<lparr>qtext = ''2+2?'', options = [''3'', ''4'', ''5'', ''6''], correctIndex = 1\<rparr>"

text \<open>A lobby with three questions, the host \<open>h\<close> bound and one player \<open>p\<close>.\<close>

definition lobbyEvents :: "event list" where
  "lobbyEvents = [CreateSession ''s'' ''Quiz'' [demoQuestion, demoQuestion, demoQuestion],
     HostJoin ''h'' ''s'', PlayerJoin ''p'' ''s'' ''Ann'']"

text \<open>The first question is open with a limit of ten seconds; two ticks have passed.\<close>

definition playingEvents :: "event list" where
  "playingEvents = lobbyEvents @ [HostStart ''h'' (Some 10), TimerFires 0, TimerFires 0]"

text \<open>The player answered the first question at once and the host skipped to its end.\<close>

definition scoredEvents :: "event list" where
  "scoredEvents = lobbyEvents @ [HostStart ''h'' None, PlayerAnswer ''p'' (Some 1), HostSkip ''h'']"

text \<open>
  The host starts twice with a limit of five seconds, so two question timers (handles 0
  and 1) tick. Handle 0 brings the countdown to zero and clears handle 1, the one in
  \<open>session.timer\<close>; handle 0 itself lives on, ends the second question a second later
  (the first inter-question countdown, handle 2, ticks too), the player submits an answer
  at \<open>timeLeft = -1\<close>, and the next tick of handle 0 scores it against the third
  question.
\<close>

definition strayTimerEvents :: "event list" where
  "strayTimerEvents = lobbyEvents @
     [HostStart ''h'' (Some 5), HostStart ''h'' (Some 5),
      TimerFires 0, TimerFires 1, TimerFires 0, TimerFires 1, TimerFires 0,
      TimerFires 0, TimerFires 2, PlayerAnswer ''p'' (Some 1), TimerFires 0]"

text \<open>
  A quiz of one question played to its end: the host skips, and the countdown
  (handle 1) ticks six times, the last of which calls \<open>endQuiz\<close>.
\<close>

definition finishedEvents :: "event list" where
  "finishedEvents =
     [CreateSession ''s'' ''Quiz'' [demoQuestion], HostJoin ''h'' ''s'', PlayerJoin ''p'' ''s'' ''Ann'',
      HostStart ''h'' None, HostSkip ''h''] @ replicate 6 (TimerFires 1)"

text \<open>The host leaves while the countdown to the second question (handle 1) runs.\<close>

definition hostLeavesEvents :: "event list" where
  "hostLeavesEvents = lobbyEvents @ [HostStart ''h'' None, HostSkip ''h'', Disconnect ''h'']"

text \<open>
  Ann joins first and Bob second; Ann's connection breaks and she joins again from a new
  socket before the server sees the old one disconnect. Both answer the only question
  at once, the host skips, and the countdown runs out.
\<close>

definition rejoinEvents :: "event list" where
  "rejoinEvents =
     [CreateSession ''s'' ''Quiz'' [demoQuestion], HostJoin ''h'' ''s'',
      PlayerJoin ''p1'' ''s'' ''Ann'', PlayerJoin ''p2'' ''s'' ''Bob'', PlayerJoin ''p3'' ''s'' ''Ann'',
      Disconnect ''p1'', HostStart ''h'' None, PlayerAnswer ''p3'' (Some 1), PlayerAnswer ''p2'' (Some 1),
      HostSkip ''h''] @ replicate 6 (TimerFires 1)"

text \<open>A session about to finish, with four players and their scores.\<close>

definition fourPlayers :: session where
  "fourPlayers = (newSession ''s'' ''Quiz'' [demoQuestion])
     \<lparr>players :=
        [(''p1'', \<lparr>name = ''Ann'', score = 500, currentAnswer = None, answerTime = None\<rparr>),
         (''p2'', \<lparr>name = ''Bob'', score = 900, currentAnswer = None, answerTime = None\<rparr>),
         (''p3'', \<lparr>name = ''Cy'', score = 500, currentAnswer = None, answerTime = None\<rparr>),
         (''p4'', \<lparr>name = ''Dee'', score = 700, currentAnswer = None, answerTime = None\<rparr>)],
      status := playing, currentQuestionIndex := 1\<rparr>"

section \<open>Scoring (C1)\<close>

lemma points_window:
  assumes "0 \<le> t" "t \<le> L" "0 < (L::rat)"
  shows "500 \<le> Math_round (500 + (t / L) * 500) \<and> Math_round (500 + (t / L) * 500) \<le> 1000"
proof -
  have a: "0 \<le> t / L" using assms by simp
  have b: "t / L \<le> 1" using assms by simp
  have "500 \<le> 500 + (t / L) * 500 + 1 / 2" using a by simp
  then have lo: "500 \<le> Math_round (500 + (t / L) * 500)"
    unfolding Math_round_def by (simp add: le_floor_iff)
  have "500 + (t / L) * 500 + 1 / 2 < 1001" using b by simp
  then have hi: "Math_round (500 + (t / L) * 500) \<le> 1000"
    unfolding Math_round_def by (simp add: floor_le_iff)
  from lo hi show ?thesis by simp
qed

lemma endQuestion_players:
  assumes "endQuestion s w = Inr w'"
  shows "\<exists>q. at_index (questions s) (int (currentQuestionIndex s)) = Some q \<and>
     map_option players (heap w' (sessId s)) =
       Some (map (\<lambda>(c, p). (c, p\<lparr>score := score p + pointsEarned p q (effTimeLimit s)\<rparr>)) (players s))"
  using assms
  by (auto simp: endQuestion_def Let_def setTimer_def store_def emit_def scorePlayer_def
      split: option.splits)

text \<open>
  The points \<open>endQuestion\<close> adds to a player's score are the specification's
  \<open>computePoints\<close>: zero when the selected option is not the correct index or no
  answer time was recorded, and \<open>round (500 + (t / L) * 500)\<close> otherwise; a correct
  answer with 8 of 10 seconds left earns 900. The value lies between 500 and 1000 when
  the recorded time \<open>t\<close> is within the window \<open>0 \<le> t \<le> L\<close>.
\<close>

lemma points_at_end_question:
  "pointsEarned p q L = computePoints (currentAnswer p = Some (correctIndex q)) (answerTime p) L \<and>
   (currentAnswer p \<noteq> Some (correctIndex q) \<or> answerTime p = None \<longrightarrow> pointsEarned p q L = 0) \<and>
   (currentAnswer p = Some (correctIndex q) \<and> answerTime p = Some t \<longrightarrow>
      pointsEarned p q L = round (500 + (t / L) * 500) \<and>
      (0 \<le> t \<and> t \<le> L \<and> 0 < L \<longrightarrow> 500 \<le> pointsEarned p q L \<and> pointsEarned p q L \<le> 1000)) \<and>
   (currentAnswer p = Some (correctIndex q) \<and> answerTime p = Some 8 \<longrightarrow> pointsEarned p q 10 = 900) \<and>
   (endQuestion s w = Inr w' \<longrightarrow>
      (\<exists>q'. at_index (questions s) (int (currentQuestionIndex s)) = Some q' \<and>
         map_option players (heap w' (sessId s)) =
           Some (map (\<lambda>(c, p'). (c, p'\<lparr>score := score p' + pointsEarned p' q' (effTimeLimit s)\<rparr>))
                   (players s))))"
proof -
  have 1: "pointsEarned p q L = computePoints (currentAnswer p = Some (correctIndex q)) (answerTime p) L"
    by (simp add: pointsEarned_def computePoints_def isCorrect_def Math_round_def round_def
        MIN_POINTS_def MAX_POINTS_def split: option.splits)
  have 2: "currentAnswer p \<noteq> Some (correctIndex q) \<or> answerTime p = None \<longrightarrow> pointsEarned p q L = 0"
    by (auto simp: pointsEarned_def isCorrect_def split: option.splits)
  have 3: "pointsEarned p q L = Math_round (500 + (t / L) * 500)"
    if "currentAnswer p = Some (correctIndex q)" "answerTime p = Some t"
    using that by (simp add: pointsEarned_def isCorrect_def MIN_POINTS_def MAX_POINTS_def)
  have 4: "pointsEarned p q 10 = 900"
    if "currentAnswer p = Some (correctIndex q)" "answerTime p = Some 8"
  proof -
    have "pointsEarned p q 10 = \<lfloor>(1801::rat) / 2\<rfloor>"
      using that by (simp add: pointsEarned_def isCorrect_def MIN_POINTS_def MAX_POINTS_def Math_round_def)
    also have "\<dots> = 900" by (simp add: floor_eq_iff)
    finally show ?thesis .
  qed
  show ?thesis
    using 1 2 3 4 points_window[of t L] endQuestion_players[of s w w']
    by (auto simp: Math_round_def round_def)
qed

lemma points_at_end_question_example:
  "pointsEarned \<lparr>name = ''Ann'', score = 0, currentAnswer = Some 1, answerTime = Some 8\<rparr>
     demoQuestion 10 = 900 \<and>
   500 \<le> pointsEarned \<lparr>name = ''Ann'', score = 0, currentAnswer = Some 1, answerTime = Some 8\<rparr>
     demoQuestion 10 \<and>
   pointsEarned \<lparr>name = ''Ann'', score = 0, currentAnswer = Some 1, answerTime = Some 8\<rparr>
     demoQuestion 10 \<le> 1000"
proof -
  let ?p = "\<lparr>name = ''Ann'', score = 0, currentAnswer = Some 1, answerTime = Some 8\<rparr>"
  have "currentAnswer ?p = Some (correctIndex demoQuestion) \<and> answerTime ?p = Some 8"
    by (simp add: demoQuestion_def)
  moreover have "(0::rat) \<le> 8 \<and> (8::rat) \<le> 10 \<and> (0::rat) < 10" by simp
  ultimately show ?thesis
    using points_at_end_question [of ?p demoQuestion 10 8] by blast
qed

text \<open>
  C1. The comments of \<open>endQuestion\<close> promise at least \<open>MIN_POINTS = 500\<close> for a
  correct answer. The question timer left over by a second \<open>host:start\<close> keeps
  counting below zero and keeps ending questions; after the run \<open>strayTimerEvents\<close>
  the server broadcasts a correct answer, recorded at \<open>timeLeft = -1\<close> under a limit
  of 5, that earned 400 points.
\<close>

theorem stray_timer_scores_below_minimum:
  "map_sum id (\<lambda>w. last (outbox w)) (run initWorld strayTimerEvents) =
     Inr (ToRoom ''s'',
       QuizResults 1 (Some ''4'')
         [\<lparr>res_name = ''Ann'', res_answer = Some 1, res_isCorrect = True,
           res_pointsEarned = 400, res_totalScore = 400, res_answerTime = Some (- 1)\<rparr>])"
  by code_simp

section \<open>Starting the quiz (C5)\<close>

lemma clampTimeLimit_range: "5 \<le> clampTimeLimit d \<and> clampTimeLimit d \<le> 120"
  by (simp add: clampTimeLimit_def Let_def split: option.splits)

lemma clampTimeLimit_cases:
  "clampTimeLimit d =
     (case d of None \<Rightarrow> 30
      | Some t \<Rightarrow> if t = 0 then 30 else if t < 5 then 5 else if 120 < t then 120 else t)"
  by (simp add: clampTimeLimit_def Let_def split: option.splits)

lemma resetAnswers_all:
  "\<forall>e \<in> set (resetAnswers ps). currentAnswer (snd e) = None \<and> answerTime (snd e) = None"
  by (auto simp: resetAnswers_def)

lemma resetAnswers_keys: "map fst (resetAnswers ps) = map fst ps"
  by (induction ps) (auto simp: resetAnswers_def)

lemma resetAnswers_idem: "resetAnswers (resetAnswers ps) = resetAnswers ps"
  by (induction ps) (auto simp: resetAnswers_def)

lemma at_index_first: "xs \<noteq> [] \<Longrightarrow> at_index xs 0 = Some (hd xs)"
  by (cases xs) (auto simp: at_index_def)

text \<open>
  C5. \<open>host:start\<close> from a socket that is not the bound host of its session (or has no
  session) emits \<open>Not authorized\<close>, and with an empty player map \<open>Need at least one
  player\<close>; either way only the error is emitted: registry, session objects and timers
  are as before. Otherwise the limit stored is the supplied one clamped to 5..120
  (30 when absent), every player's answer and answer time are null, the status is
  \<open>playing\<close> and the question index 0.
\<close>

theorem hostStart_protocol:
  "((sessions_get w (sessionId (sockets w c)) = None \<or>
     (sessions_get w (sessionId (sockets w c)) = Some s \<and> Some c \<noteq> hostSocketId s)) \<longrightarrow>
      hostStart c d w = Inr (Some Unauthorized, emit (ToSocket c) (ErrorMsg Unauthorized) w)) \<and>
   (sessions_get w (sessionId (sockets w c)) = Some s \<and> Some c = hostSocketId s \<and> players s = [] \<longrightarrow>
      hostStart c d w = Inr (Some NoPlayers, emit (ToSocket c) (ErrorMsg NoPlayers) w)) \<and>
   heap (emit (ToSocket c) (ErrorMsg e) w) = heap w \<and>
   sessions (emit (ToSocket c) (ErrorMsg e) w) = sessions w \<and>
   timers (emit (ToSocket c) (ErrorMsg e) w) = timers w \<and>
   (sessions_get w (sessionId (sockets w c)) = Some s \<and> Some c = hostSocketId s \<and> players s \<noteq> [] \<and>
    questions s \<noteq> [] \<longrightarrow>
      (\<exists>w' s'. hostStart c d w = Inr (None, w') \<and> heap w' (sessId s) = Some s' \<and>
         timeLimit s' = Some (clampTimeLimit d) \<and>
         5 \<le> clampTimeLimit d \<and> clampTimeLimit d \<le> 120 \<and>
         clampTimeLimit d =
           (case d of None \<Rightarrow> 30
            | Some t \<Rightarrow> if t = 0 then 30 else if t < 5 then 5 else if 120 < t then 120 else t) \<and>
         status s' = playing \<and> currentQuestionIndex s' = 0 \<and>
         map fst (players s') = map fst (players s) \<and>
         (\<forall>e \<in> set (players s'). currentAnswer (snd e) = None \<and> answerTime (snd e) = None)))"
proof -
  have unauth: "hostStart c d w = Inr (Some Unauthorized, emit (ToSocket c) (ErrorMsg Unauthorized) w)"
    if "sessions_get w (sessionId (sockets w c)) = None \<or>
        (sessions_get w (sessionId (sockets w c)) = Some s \<and> Some c \<noteq> hostSocketId s)"
    using that by (auto simp: hostStart_def)
  have noplayers: "hostStart c d w = Inr (Some NoPlayers, emit (ToSocket c) (ErrorMsg NoPlayers) w)"
    if "sessions_get w (sessionId (sockets w c)) = Some s \<and> Some c = hostSocketId s \<and> players s = []"
    using that by (auto simp: hostStart_def)
  have ok: "\<exists>w' s'. hostStart c d w = Inr (None, w') \<and> heap w' (sessId s) = Some s' \<and>
         timeLimit s' = Some (clampTimeLimit d) \<and>
         status s' = playing \<and> currentQuestionIndex s' = 0 \<and>
         map fst (players s') = map fst (players s) \<and>
         (\<forall>e \<in> set (players s'). currentAnswer (snd e) = None \<and> answerTime (snd e) = None)"
    if h: "sessions_get w (sessionId (sockets w c)) = Some s \<and> Some c = hostSocketId s \<and>
           players s \<noteq> [] \<and> questions s \<noteq> []"
  proof -
    from h have q: "at_index (questions s) 0 = Some (hd (questions s))"
      by (simp add: at_index_first)
    from h q show ?thesis
      by (simp add: hostStart_def sendQuestion_def Let_def setTimer_def store_def emit_def
          resetAnswers_keys resetAnswers_idem resetAnswers_all)
  qed
  have ok': "\<exists>w' s'. hostStart c d w = Inr (None, w') \<and> heap w' (sessId s) = Some s' \<and>
         timeLimit s' = Some (clampTimeLimit d) \<and>
         5 \<le> clampTimeLimit d \<and> clampTimeLimit d \<le> 120 \<and>
         clampTimeLimit d =
           (case d of None \<Rightarrow> 30
            | Some t \<Rightarrow> if t = 0 then 30 else if t < 5 then 5 else if 120 < t then 120 else t) \<and>
         status s' = playing \<and> currentQuestionIndex s' = 0 \<and>
         map fst (players s') = map fst (players s) \<and>
         (\<forall>e \<in> set (players s'). currentAnswer (snd e) = None \<and> answerTime (snd e) = None)"
    if h: "sessions_get w (sessionId (sockets w c)) = Some s \<and> Some c = hostSocketId s \<and>
           players s \<noteq> [] \<and> questions s \<noteq> []"
  proof -
    from ok [OF h] obtain w' s' where
      "hostStart c d w = Inr (None, w') \<and> heap w' (sessId s) = Some s' \<and>
         timeLimit s' = Some (clampTimeLimit d) \<and>
         status s' = playing \<and> currentQuestionIndex s' = 0 \<and>
         map fst (players s') = map fst (players s) \<and>
         (\<forall>e \<in> set (players s'). currentAnswer (snd e) = None \<and> answerTime (snd e) = None)"
      by blast
    with clampTimeLimit_range [of d] clampTimeLimit_cases [of d] show ?thesis
      by (intro exI [of _ w'] exI [of _ s']) simp
  qed
  have frame: "heap (emit (ToSocket c) (ErrorMsg e) w) = heap w \<and>
     sessions (emit (ToSocket c) (ErrorMsg e) w) = sessions w \<and>
     timers (emit (ToSocket c) (ErrorMsg e) w) = timers w"
    by (simp add: emit_def)
  from unauth noplayers ok' frame show ?thesis
    by (intro conjI impI) (assumption | simp)+
qed

theorem hostStart_protocol_witness:
  "hostStart ''x'' None (worldAfter lobbyEvents) =
     Inr (Some Unauthorized, emit (ToSocket ''x'') (ErrorMsg Unauthorized) (worldAfter lobbyEvents)) \<and>
   hostStart ''h'' None (worldAfter (take 2 lobbyEvents)) =
     Inr (Some NoPlayers, emit (ToSocket ''h'') (ErrorMsg NoPlayers) (worldAfter (take 2 lobbyEvents))) \<and>
   (\<exists>w' s'. hostStart ''h'' (Some 200) (worldAfter lobbyEvents) = Inr (None, w') \<and>
      heap w' ''s'' = Some s' \<and> timeLimit s' = Some 120 \<and> status s' = playing)"
proof -
  let ?w = "worldAfter lobbyEvents"
  let ?v = "worldAfter (take 2 lobbyEvents)"
  have a: "sessions_get ?w (sessionId (sockets ?w ''x'')) = None" by code_simp
  have b: "sessions_get ?v (sessionId (sockets ?v ''h'')) = Some (the (heap ?v ''s'')) \<and>
           Some ''h'' = hostSocketId (the (heap ?v ''s'')) \<and> players (the (heap ?v ''s'')) = []"
    by code_simp
  have c: "sessions_get ?w (sessionId (sockets ?w ''h'')) = Some (the (heap ?w ''s'')) \<and>
           Some ''h'' = hostSocketId (the (heap ?w ''s'')) \<and> players (the (heap ?w ''s'')) \<noteq> [] \<and>
           questions (the (heap ?w ''s'')) \<noteq> []"
    by code_simp
  have d: "sessId (the (heap ?w ''s'')) = ''s''" "clampTimeLimit (Some 200) = 120" by code_simp+
  from a have 1: "hostStart ''x'' None ?w =
      Inr (Some Unauthorized, emit (ToSocket ''x'') (ErrorMsg Unauthorized) ?w)"
    using hostStart_protocol [where w = ?w and c = "''x''" and d = None] by blast
  from b have 2: "hostStart ''h'' None ?v =
      Inr (Some NoPlayers, emit (ToSocket ''h'') (ErrorMsg NoPlayers) ?v)"
    using hostStart_protocol [where w = ?v and c = "''h''" and s = "the (heap ?v ''s'')" and d = None]
    by blast
  from c obtain w' s' where "hostStart ''h'' (Some 200) ?w = Inr (None, w') \<and>
      heap w' (sessId (the (heap ?w ''s''))) = Some s' \<and>
      timeLimit s' = Some (clampTimeLimit (Some 200)) \<and> status s' = playing"
    using hostStart_protocol [where w = ?w and c = "''h''" and s = "the (heap ?w ''s'')"
        and d = "Some 200"]
    by blast
  with d have 3: "\<exists>w' s'. hostStart ''h'' (Some 200) ?w = Inr (None, w') \<and>
      heap w' ''s'' = Some s' \<and> timeLimit s' = Some 120 \<and> status s' = playing"
    by (intro exI [of _ w'] exI [of _ s']) simp
  from 1 2 3 show ?thesis by blast
qed



section \<open>Joining and reconnecting (C4)\<close>

lemma Map_get_set_same: "Map_get (Map_set ps k v) k = Some v"
  by (induction ps) (auto simp: Map_get_def)

lemma Map_get_set_other: "k' \<noteq> k \<Longrightarrow> Map_get (Map_set ps k v) k' = Map_get ps k'"
  by (induction ps) (auto simp: Map_get_def)

lemma Map_get_delete_same: "Map_get (Map_delete ps k) k = None"
  by (induction ps) (auto simp: Map_get_def Map_delete_def)

lemma Map_get_delete_other: "k' \<noteq> k \<Longrightarrow> Map_get (Map_delete ps k) k' = Map_get ps k'"
  by (induction ps) (auto simp: Map_get_def Map_delete_def)

lemma find_map_snd: "find P (map snd ps) = map_option snd (find (\<lambda>e. P (snd e)) ps)"
  by (induction ps) auto

lemma find_SomeD: "find P xs = Some x \<Longrightarrow> P x"
  by (induction xs) (auto split: if_splits)

lemma no_match_no_collision:
  "(find (\<lambda>e. nameMatches nm (snd e)) ps = None) =
   (toLowerCase nm \<notin> set (map (\<lambda>e. toLowerCase (name (snd e))) ps))"
  by (induction ps) (auto simp: nameMatches_def)

lemma playerJoin_reconnect:
  assumes "sessions_get w (Some i) = Some s"
    "find (\<lambda>e. nameMatches nm (snd e)) (players s) = Some (old, p)"
  shows "fst (playerJoin c i nm w) = None \<and>
     heap (snd (playerJoin c i nm w)) (sessId s) =
       Some (s\<lparr>players := Map_set (Map_delete (players s) old) c p\<rparr>)"
  using assms
  by (simp add: playerJoin_def Let_def find_map_snd store_def emit_def)

lemma playerJoin_new:
  assumes "sessions_get w (Some i) = Some s"
    "find (\<lambda>e. nameMatches nm (snd e)) (players s) = None" "status s = lobby"
  shows "fst (playerJoin c i nm w) = None \<and>
     heap (snd (playerJoin c i nm w)) (sessId s) =
       Some (s\<lparr>players := Map_set (players s) c
                \<lparr>name = nm, score = 0, currentAnswer = None, answerTime = None\<rparr>\<rparr>)"
proof -
  from assms(2) have "toLowerCase nm \<notin> set (map (\<lambda>e. toLowerCase (name (snd e))) (players s))"
    using no_match_no_collision [of nm "players s"] by blast
  with assms show ?thesis
    by (simp add: playerJoin_def Let_def find_map_snd store_def emit_def)
qed

lemma playerJoin_never_duplicate: "fst (playerJoin c i nm w) \<noteq> Some DuplicateName"
proof (cases "sessions_get w (Some i)")
  case None
  then show ?thesis by (simp add: playerJoin_def)
next
  case (Some s)
  show ?thesis
  proof (cases "find (\<lambda>e. nameMatches nm (snd e)) (players s)")
    case None
    then have "toLowerCase nm \<notin> set (map (\<lambda>e. toLowerCase (name (snd e))) (players s))"
      using no_match_no_collision [of nm "players s"] by blast
    with Some None show ?thesis
      by (simp add: playerJoin_def Let_def find_map_snd)
  next
    case (Some a)
    with \<open>sessions_get w (Some i) = Some s\<close> show ?thesis
      by (simp add: playerJoin_def Let_def find_map_snd split: prod.splits)
  qed
qed

text \<open>
  \<open>player:join\<close> fails with \<open>Session not found\<close> when the session is absent.
  When a player of that name (compared in lower case) exists, the join is handled as a
  reconnect: the same player record, score included, sits under the new socket id and
  the old key is gone. Without a match the join fails with \<open>Quiz has already
  started\<close> outside the lobby, and in the lobby creates a player with score 0. The
  duplicate-name test is the match test again, so without a match it never succeeds and
  the duplicate-name error is never emitted.
\<close>

lemma joinPlayer_protocol:
  "(sessions_get w (Some i) = None \<longrightarrow>
      playerJoin c i nm w = (Some NotFound, emit (ToSocket c) (ErrorMsg NotFound) w)) \<and>
   (sessions_get w (Some i) = Some s \<and>
    find (\<lambda>e. nameMatches nm (snd e)) (players s) = Some (old, p) \<longrightarrow>
      toLowerCase (name p) = toLowerCase nm \<and>
      fst (playerJoin c i nm w) = None \<and>
      (\<exists>s'. heap (snd (playerJoin c i nm w)) (sessId s) = Some s' \<and>
         players s' = Map_set (Map_delete (players s) old) c p \<and>
         Map_get (players s') c = Some p \<and>
         (old \<noteq> c \<longrightarrow> Map_get (players s') old = None) \<and>
         status s' = status s)) \<and>
   (sessions_get w (Some i) = Some s \<and>
    find (\<lambda>e. nameMatches nm (snd e)) (players s) = None \<and> status s \<noteq> lobby \<longrightarrow>
      playerJoin c i nm w = (Some AlreadyStarted, emit (ToSocket c) (ErrorMsg AlreadyStarted) w)) \<and>
   (sessions_get w (Some i) = Some s \<and>
    find (\<lambda>e. nameMatches nm (snd e)) (players s) = None \<and> status s = lobby \<longrightarrow>
      toLowerCase nm \<notin> set (map (\<lambda>e. toLowerCase (name (snd e))) (players s)) \<and>
      fst (playerJoin c i nm w) = None \<and>
      (\<exists>s' p'. heap (snd (playerJoin c i nm w)) (sessId s) = Some s' \<and>
         players s' = Map_set (players s) c p' \<and> Map_get (players s') c = Some p' \<and>
         name p' = nm \<and> score p' = 0 \<and> currentAnswer p' = None)) \<and>
   fst (playerJoin c i nm w) \<noteq> Some DuplicateName"
proof -
  have notfound: "playerJoin c i nm w = (Some NotFound, emit (ToSocket c) (ErrorMsg NotFound) w)"
    if "sessions_get w (Some i) = None"
    using that by (simp add: playerJoin_def)
  have reconnect: "toLowerCase (name p) = toLowerCase nm \<and>
      fst (playerJoin c i nm w) = None \<and>
      (\<exists>s'. heap (snd (playerJoin c i nm w)) (sessId s) = Some s' \<and>
         players s' = Map_set (Map_delete (players s) old) c p \<and>
         Map_get (players s') c = Some p \<and>
         (old \<noteq> c \<longrightarrow> Map_get (players s') old = None) \<and>
         status s' = status s)"
    if h: "sessions_get w (Some i) = Some s \<and>
           find (\<lambda>e. nameMatches nm (snd e)) (players s) = Some (old, p)"
  proof -
    let ?s' = "s\<lparr>players := Map_set (Map_delete (players s) old) c p\<rparr>"
    from h have m: "toLowerCase (name p) = toLowerCase nm"
      using find_SomeD [of "\<lambda>e. nameMatches nm (snd e)" "players s" "(old, p)"]
      by (simp add: nameMatches_def)
    from h have r: "fst (playerJoin c i nm w) = None \<and>
        heap (snd (playerJoin c i nm w)) (sessId s) = Some ?s'"
      using playerJoin_reconnect [of w i s nm old p c] by simp
    have "old \<noteq> c \<longrightarrow> Map_get (players ?s') old = None"
      by (simp add: Map_get_set_other Map_get_delete_same)
    with m r show ?thesis
      by (intro conjI exI [of _ ?s']) (simp_all add: Map_get_set_same)
  qed
  have started: "playerJoin c i nm w =
      (Some AlreadyStarted, emit (ToSocket c) (ErrorMsg AlreadyStarted) w)"
    if "sessions_get w (Some i) = Some s \<and>
        find (\<lambda>e. nameMatches nm (snd e)) (players s) = None \<and> status s \<noteq> lobby"
    using that by (simp add: playerJoin_def Let_def find_map_snd)
  have fresh: "toLowerCase nm \<notin> set (map (\<lambda>e. toLowerCase (name (snd e))) (players s)) \<and>
      fst (playerJoin c i nm w) = None \<and>
      (\<exists>s' p'. heap (snd (playerJoin c i nm w)) (sessId s) = Some s' \<and>
         players s' = Map_set (players s) c p' \<and> Map_get (players s') c = Some p' \<and>
         name p' = nm \<and> score p' = 0 \<and> currentAnswer p' = None)"
    if h: "sessions_get w (Some i) = Some s \<and>
        find (\<lambda>e. nameMatches nm (snd e)) (players s) = None \<and> status s = lobby"
  proof -
    let ?p' = "\<lparr>name = nm, score = 0, currentAnswer = None, answerTime = None\<rparr>"
    let ?s' = "s\<lparr>players := Map_set (players s) c ?p'\<rparr>"
    from h have n: "toLowerCase nm \<notin> set (map (\<lambda>e. toLowerCase (name (snd e))) (players s))"
      using no_match_no_collision [of nm "players s"] by blast
    from h have r: "fst (playerJoin c i nm w) = None \<and>
        heap (snd (playerJoin c i nm w)) (sessId s) = Some ?s'"
      using playerJoin_new [of w i s nm c] by simp
    from n r show ?thesis
      by (intro conjI exI [of _ ?s'] exI [of _ ?p']) (simp_all add: Map_get_set_same)
  qed
  from notfound reconnect started fresh playerJoin_never_duplicate [of c i nm w]
  show ?thesis
    by (intro conjI impI) (assumption | simp)+
qed


lemma joinPlayer_protocol_example:
  "playerJoin ''q'' ''zz'' ''Bob'' (worldAfter scoredEvents) =
     (Some NotFound, emit (ToSocket ''q'') (ErrorMsg NotFound) (worldAfter scoredEvents)) \<and>
   (\<exists>s' p'. heap (snd (playerJoin ''q'' ''s'' ''ANN'' (worldAfter scoredEvents))) ''s'' = Some s' \<and>
      Map_get (players s') ''q'' = Some p' \<and> name p' = ''Ann'' \<and> score p' = 1000 \<and>
      Map_get (players s') ''p'' = None) \<and>
   playerJoin ''q'' ''s'' ''Bob'' (worldAfter scoredEvents) =
     (Some AlreadyStarted, emit (ToSocket ''q'') (ErrorMsg AlreadyStarted) (worldAfter scoredEvents)) \<and>
   (\<exists>s' p'. heap (snd (playerJoin ''q'' ''s'' ''Bob'' (worldAfter lobbyEvents))) ''s'' = Some s' \<and>
      Map_get (players s') ''q'' = Some p' \<and> name p' = ''Bob'' \<and> score p' = 0)"
proof -
  let ?w = "worldAfter scoredEvents"
  let ?s = "the (heap ?w ''s'')"
  let ?v = "worldAfter lobbyEvents"
  let ?t = "the (heap ?v ''s'')"
  let ?ann = "\<lparr>name = ''Ann'', score = 1000, currentAnswer = Some 1, answerTime = Some 30\<rparr>"
  have a: "sessions_get ?w (Some ''zz'') = None" by code_simp
  have b: "sessions_get ?w (Some ''s'') = Some ?s \<and>
     find (\<lambda>e. nameMatches ''ANN'' (snd e)) (players ?s) = Some (''p'', ?ann)"
    by code_simp
  have c: "sessions_get ?w (Some ''s'') = Some ?s \<and>
     find (\<lambda>e. nameMatches ''Bob'' (snd e)) (players ?s) = None \<and> status ?s \<noteq> lobby"
    by code_simp
  have d: "sessions_get ?v (Some ''s'') = Some ?t \<and>
     find (\<lambda>e. nameMatches ''Bob'' (snd e)) (players ?t) = None \<and> status ?t = lobby"
    by code_simp
  have k: "sessId ?s = ''s''" "sessId ?t = ''s''" "''p'' \<noteq> ''q''" by code_simp+
  from a have 1: "playerJoin ''q'' ''zz'' ''Bob'' ?w =
      (Some NotFound, emit (ToSocket ''q'') (ErrorMsg NotFound) ?w)"
    using joinPlayer_protocol [where w = ?w and i = "''zz''" and c = "''q''" and nm = "''Bob''"] by blast
  from b k obtain s' where "heap (snd (playerJoin ''q'' ''s'' ''ANN'' ?w)) (sessId ?s) = Some s' \<and>
      Map_get (players s') ''q'' = Some ?ann \<and> Map_get (players s') ''p'' = None"
    using joinPlayer_protocol [where w = ?w and i = "''s''" and c = "''q''" and nm = "''ANN''"
        and s = ?s and old = "''p''" and p = ?ann] by blast
  with k have 2: "\<exists>s' p'. heap (snd (playerJoin ''q'' ''s'' ''ANN'' ?w)) ''s'' = Some s' \<and>
      Map_get (players s') ''q'' = Some p' \<and> name p' = ''Ann'' \<and> score p' = 1000 \<and>
      Map_get (players s') ''p'' = None"
    by (intro exI [of _ s'] exI [of _ ?ann]) simp
  from c have 3: "playerJoin ''q'' ''s'' ''Bob'' ?w =
      (Some AlreadyStarted, emit (ToSocket ''q'') (ErrorMsg AlreadyStarted) ?w)"
    using joinPlayer_protocol [where w = ?w and i = "''s''" and c = "''q''" and nm = "''Bob''"
        and s = ?s] by blast
  from d obtain t' p' where "heap (snd (playerJoin ''q'' ''s'' ''Bob'' ?v)) (sessId ?t) = Some t' \<and>
      Map_get (players t') ''q'' = Some p' \<and> name p' = ''Bob'' \<and> score p' = 0"
    using joinPlayer_protocol [where w = ?v and i = "''s''" and c = "''q''" and nm = "''Bob''"
        and s = ?t] by blast
  with k have 4: "\<exists>s' p'. heap (snd (playerJoin ''q'' ''s'' ''Bob'' ?v)) ''s'' = Some s' \<and>
      Map_get (players s') ''q'' = Some p' \<and> name p' = ''Bob'' \<and> score p' = 0"
    by (intro exI [of _ t'] exI [of _ p']) simp
  from 1 2 3 4 show ?thesis by blast
qed

text \<open>The comparison folds accented capitals too: a name in other case is a match.\<close>

lemma toLowerCase_accented:
  "toLowerCase [CHR 0xC5, CHR ''s'', CHR ''a''] = toLowerCase [CHR 0xE5, CHR ''S'', CHR ''A'']"
  by code_simp


section \<open>Answering (C7)\<close>

lemma sessions_get_None: "sessions_get w None = None"
  by (simp add: sessions_get_def)

lemma playerAnswer_effect:
  assumes "sessions_get w (sessionId (sockets w c)) = Some s" "status s = playing"
    "Map_get (players s) c = Some p"
  shows "heap (playerAnswer c a w) (sessId s) =
           Some (s\<lparr>players := Map_set (players s) c (recordAnswer (timeLeft s) a p)\<rparr>) \<and>
         last (outbox (playerAnswer c a w)) =
           (ToHost (hostSocketId s),
            HostAnswerStats (answerStats (Map_set (players s) c (recordAnswer (timeLeft s) a p))))"
  using assms
  by (cases "sessionId (sockets w c)")
    (simp_all add: playerAnswer_def Let_def store_def emit_def sessions_get_None)

lemma submissions_answered:
  "currentAnswer p \<noteq> None \<Longrightarrow>
     answerTime (submissions p (map (\<lambda>x. (fst x, Some (snd x))) xs)) = answerTime p \<and>
     currentAnswer (submissions p (map (\<lambda>x. (fst x, Some (snd x))) xs)) =
       (if xs = [] then currentAnswer p else Some (snd (last xs)))"
proof (induction xs arbitrary: p)
  case Nil
  then show ?case by simp
next
  case (Cons x xs)
  obtain l a where x: "x = (l, a)" by (cases x)
  have "currentAnswer (recordAnswer l (Some a) p) \<noteq> None" by (simp add: recordAnswer_def)
  from Cons.IH [OF this] Cons.prems x show ?case
    by (auto simp: recordAnswer_def)
qed

text \<open>
  When \<open>player:answer\<close> reaches a known player of a playing session, the payload is
  stored, whatever was stored before; the answer time becomes the current countdown
  value if the stored answer was null and is left as it was otherwise. Over a sequence
  of submissions that are all numbers and start without an answer, the answer time stays
  the countdown value of the first and the option is that of the last.
\<close>

lemma answer_time_frozen:
  "(sessions_get w (sessionId (sockets w c)) = Some s \<and> status s = playing \<and>
    Map_get (players s) c = Some p \<longrightarrow>
      (\<exists>s' p'. heap (playerAnswer c a w) (sessId s) = Some s' \<and>
         Map_get (players s') c = Some p' \<and>
         currentAnswer p' = a \<and>
         answerTime p' = (if currentAnswer p = None then Some (timeLeft s) else answerTime p) \<and>
         name p' = name p \<and> score p' = score p \<and> timeLeft s' = timeLeft s \<and>
         (\<forall>c'. c' \<noteq> c \<longrightarrow> Map_get (players s') c' = Map_get (players s) c'))) \<and>
   (currentAnswer p = None \<longrightarrow>
      answerTime (submissions p ((left, Some n) # map (\<lambda>x. (fst x, Some (snd x))) rest)) =
        Some left \<and>
      currentAnswer (submissions p ((left, Some n) # map (\<lambda>x. (fst x, Some (snd x))) rest)) =
        Some (snd (last ((left, n) # rest))))"
proof -
  have step: "\<exists>s' p'. heap (playerAnswer c a w) (sessId s) = Some s' \<and>
         Map_get (players s') c = Some p' \<and>
         currentAnswer p' = a \<and>
         answerTime p' = (if currentAnswer p = None then Some (timeLeft s) else answerTime p) \<and>
         name p' = name p \<and> score p' = score p \<and> timeLeft s' = timeLeft s \<and>
         (\<forall>c'. c' \<noteq> c \<longrightarrow> Map_get (players s') c' = Map_get (players s) c')"
    if h: "sessions_get w (sessionId (sockets w c)) = Some s \<and> status s = playing \<and>
           Map_get (players s) c = Some p"
  proof -
    let ?p' = "recordAnswer (timeLeft s) a p"
    let ?s' = "s\<lparr>players := Map_set (players s) c ?p'\<rparr>"
    from h have "heap (playerAnswer c a w) (sessId s) = Some ?s'"
      using playerAnswer_effect [of w c s p a] by simp
    moreover have "Map_get (players ?s') c = Some ?p'" by (simp add: Map_get_set_same)
    moreover have "currentAnswer ?p' = a \<and>
        answerTime ?p' = (if currentAnswer p = None then Some (timeLeft s) else answerTime p) \<and>
        name ?p' = name p \<and> score ?p' = score p"
      by (simp add: recordAnswer_def)
    moreover have "\<forall>c'. c' \<noteq> c \<longrightarrow> Map_get (players ?s') c' = Map_get (players s) c'"
      by (simp add: Map_get_set_other)
    ultimately show ?thesis
      by (intro exI [of _ ?s'] exI [of _ ?p']) simp
  qed
  have seq: "answerTime (submissions p ((left, Some n) # map (\<lambda>x. (fst x, Some (snd x))) rest)) =
        Some left \<and>
      currentAnswer (submissions p ((left, Some n) # map (\<lambda>x. (fst x, Some (snd x))) rest)) =
        Some (snd (last ((left, n) # rest)))"
    if e: "currentAnswer p = None"
  proof -
    have "currentAnswer (recordAnswer left (Some n) p) \<noteq> None" by (simp add: recordAnswer_def)
    from submissions_answered [OF this, of rest] e show ?thesis
      by (auto simp: recordAnswer_def)
  qed
  from step seq show ?thesis by blast
qed

lemma answer_time_frozen_example:
  "(\<exists>s' p'. heap (playerAnswer ''p'' (Some 2) (worldAfter playingEvents)) ''s'' = Some s' \<and>
      Map_get (players s') ''p'' = Some p' \<and> currentAnswer p' = Some 2 \<and> answerTime p' = Some 8) \<and>
   answerTime (submissions \<lparr>name = ''Ann'', score = 0, currentAnswer = None, answerTime = None\<rparr>
     [(8, Some 2), (5, Some 1), (3, Some 0)]) = Some 8 \<and>
   currentAnswer (submissions \<lparr>name = ''Ann'', score = 0, currentAnswer = None, answerTime = None\<rparr>
     [(8, Some 2), (5, Some 1), (3, Some 0)]) = Some 0"
proof -
  let ?w = "worldAfter playingEvents"
  let ?s = "the (heap ?w ''s'')"
  let ?p = "\<lparr>name = ''Ann'', score = 0, currentAnswer = None, answerTime = None\<rparr>"
  have h: "sessions_get ?w (sessionId (sockets ?w ''p'')) = Some ?s \<and> status ?s = playing \<and>
     Map_get (players ?s) ''p'' = Some ?p"
    by code_simp
  have k: "sessId ?s = ''s''" "timeLeft ?s = 8" by code_simp+
  from h obtain s' p' where r: "heap (playerAnswer ''p'' (Some 2) ?w) (sessId ?s) = Some s'"
      "Map_get (players s') ''p'' = Some p'" "currentAnswer p' = Some 2"
      "answerTime p' = (if currentAnswer ?p = None then Some (timeLeft ?s) else answerTime ?p)"
    using answer_time_frozen [where w = ?w and c = "''p''" and s = ?s and p = ?p and a = "Some 2"]
    by blast
  from r k have "\<exists>s' p'. heap (playerAnswer ''p'' (Some 2) ?w) ''s'' = Some s' \<and>
      Map_get (players s') ''p'' = Some p' \<and> currentAnswer p' = Some 2 \<and> answerTime p' = Some 8"
    by (intro exI [of _ s'] exI [of _ p']) simp
  moreover have "answerTime (submissions ?p [(8, Some 2), (5, Some 1), (3, Some 0)]) = Some 8 \<and>
     currentAnswer (submissions ?p [(8, Some 2), (5, Some 1), (3, Some 0)]) = Some 0"
    using answer_time_frozen [where p = ?p and left = 8 and n = 2 and rest = "[(5, 1), (3, 0)]"]
    by simp
  ultimately show ?thesis by blast
qed

text \<open>
  C7. The comment in \<open>player:answer\<close> says the time is recorded on the first answer
  only. The handler tells a first answer by \<open>currentAnswer === null\<close>, and a
  \<open>null\<close> payload is stored like any other. With the first question open at
  \<open>timeLeft = 8\<close>, a \<open>null\<close> submission records the time 8 and leaves the
  answer null, so a submission of option 1 three ticks later overwrites the time with 5.
  Likewise option 1 at 8, then \<open>null\<close>, then option 1 six ticks later leaves the
  time 2.
\<close>

theorem null_answer_reopens_time:
  "map_sum id
     (\<lambda>w. map_option (\<lambda>s. map (\<lambda>e. (currentAnswer (snd e), answerTime (snd e))) (players s))
        (heap w ''s''))
     (run initWorld (playingEvents @ [PlayerAnswer ''p'' None])) = Inr (Some [(None, Some 8)]) \<and>
   map_sum id
     (\<lambda>w. map_option (\<lambda>s. map (\<lambda>e. (currentAnswer (snd e), answerTime (snd e))) (players s))
        (heap w ''s''))
     (run initWorld (playingEvents @
        [PlayerAnswer ''p'' None, TimerFires 0, TimerFires 0, TimerFires 0,
         PlayerAnswer ''p'' (Some 1)])) = Inr (Some [(Some 1, Some 5)]) \<and>
   map_sum id
     (\<lambda>w. map_option (\<lambda>s. map (\<lambda>e. (currentAnswer (snd e), answerTime (snd e))) (players s))
        (heap w ''s''))
     (run initWorld (playingEvents @
        [PlayerAnswer ''p'' (Some 1), PlayerAnswer ''p'' None] @ replicate 6 (TimerFires 0) @
        [PlayerAnswer ''p'' (Some 1)])) = Inr (Some [(Some 1, Some 2)])"
  by code_simp

section \<open>Final standings (C8)\<close>

lemma standings_status: "standings (s\<lparr>status := x\<rparr>) = standings s"
  by (simp add: standings_def)

lemma podium_status: "podium (s\<lparr>status := x\<rparr>) = podium s"
  by (simp add: podium_def standings_status)

lemma ranks_enumerate:
  "map fst (map (\<lambda>(index, e). (index + 1, fst e, snd e)) ys) = map Suc (map fst ys)"
  by (induction ys) auto

lemma podium_ranks: "map fst (podium s) = [1..<Suc (length (take 3 (standings s)))]"
  unfolding podium_def ranks_enumerate map_fst_enumerate map_Suc_upt by simp

lemma podium_entries: "map snd (podium s) = take 3 (standings s)"
proof -
  have "map snd (podium s) = map snd (enumerate 0 (take 3 (standings s)))"
    by (simp add: podium_def split_def comp_def)
  then show ?thesis by simp
qed

lemma roster_entries: "roster ps = map (\<lambda>e. (name (snd e), score (snd e))) ps"
  by (simp add: roster_def split_def)

text \<open>
  C8, as amended. The final standings are the name and score of every player of the
  session, each once, in descending order of score; the players of any one score stand
  in the order they have in the player map at that moment. The podium is the first
  three of the standings (all of them when there are fewer), numbered 1, 2, 3, and
  \<open>endQuiz\<close> broadcasts both and sets the status to \<open>finished\<close>.
\<close>

theorem final_standings:
  "mset (standings s) = mset (map (\<lambda>e. (name (snd e), score (snd e))) (players s)) \<and>
   length (standings s) = length (players s) \<and>
   sorted_wrt (\<lambda>a b. snd b \<le> snd a) (standings s) \<and>
   (\<forall>k. filter (\<lambda>e. snd e = k) (standings s) =
        map (\<lambda>e. (name (snd e), score (snd e))) (filter (\<lambda>e. score (snd e) = k) (players s))) \<and>
   map snd (podium s) = take 3 (standings s) \<and>
   map fst (podium s) = [1..<Suc (min 3 (length (players s)))] \<and>
   length (podium s) = min 3 (length (players s)) \<and>
   last (outbox (endQuiz s w)) = (ToRoom (sessId s), QuizFinished (podium s) (standings s)) \<and>
   map_option status (heap (endQuiz s w) (sessId s)) = Some finished"
proof -
  let ?r = "map (\<lambda>e. (name (snd e), score (snd e))) (players s)"
  have m: "mset (standings s) = mset ?r"
    by (simp add: standings_def roster_entries)
  have l: "length (standings s) = length (players s)"
    by (simp add: standings_def roster_entries)
  have "sorted (map (\<lambda>e. - snd e) (standings s))"
    unfolding standings_def by (rule sorted_sort_key)
  then have d: "sorted_wrt (\<lambda>a b. snd b \<le> snd a) (standings s)"
    by (simp add: sorted_map)
  have st: "filter (\<lambda>e. snd e = k) (standings s) =
      map (\<lambda>e. (name (snd e), score (snd e))) (filter (\<lambda>e. score (snd e) = k) (players s))" for k
  proof -
    have "filter (\<lambda>e. snd e = k) (standings s) = filter (\<lambda>e. snd e = k) ?r"
      using sort_key_stable [of "\<lambda>e. - snd e" "- k" ?r]
      by (simp add: standings_def roster_entries)
    also have "\<dots> = map (\<lambda>e. (name (snd e), score (snd e)))
        (filter (\<lambda>e. score (snd e) = k) (players s))"
      by (simp add: filter_map comp_def)
    finally show ?thesis .
  qed
  have r: "map fst (podium s) = [1..<Suc (min 3 (length (players s)))]"
    using podium_ranks [of s] l by (simp add: min.commute)
  have lp: "length (podium s) = min 3 (length (players s))"
    using arg_cong [OF podium_entries [of s], of length] l by (simp add: min.commute)
  have e: "last (outbox (endQuiz s w)) = (ToRoom (sessId s), QuizFinished (podium s) (standings s))"
    by (simp add: endQuiz_def Let_def setTimer_def emit_def store_def podium_status standings_status)
  have f: "map_option status (heap (endQuiz s w) (sessId s)) = Some finished"
    by (simp add: endQuiz_def Let_def setTimer_def emit_def store_def)
  from m l d st podium_entries [of s] r lp e f show ?thesis by blast
qed

text \<open>
  Four players with scores 500, 900, 500 and 700: Bob, Dee, then Ann before Cy as in
  the player map; the podium is Bob, Dee, Ann.
\<close>

theorem final_standings_witness:
  "last (outbox (endQuiz fourPlayers initWorld)) =
     (ToRoom ''s'',
      QuizFinished [(1, ''Bob'', 900), (2, ''Dee'', 700), (3, ''Ann'', 500)]
        [(''Bob'', 900), (''Dee'', 700), (''Ann'', 500), (''Cy'', 500)]) \<and>
   filter (\<lambda>e. snd e = 500) (standings fourPlayers) = [(''Ann'', 500), (''Cy'', 500)]"
proof -
  have a: "standings fourPlayers = [(''Bob'', 900), (''Dee'', 700), (''Ann'', 500), (''Cy'', 500)]"
    by code_simp
  have b: "podium fourPlayers = [(1, ''Bob'', 900), (2, ''Dee'', 700), (3, ''Ann'', 500)]"
    by code_simp
  have c: "sessId fourPlayers = ''s''" by code_simp
  have d: "map (\<lambda>e. (name (snd e), score (snd e)))
      (filter (\<lambda>e. score (snd e) = 500) (players fourPlayers)) = [(''Ann'', 500), (''Cy'', 500)]"
    by code_simp
  from final_standings [of fourPlayers initWorld] a b c d show ?thesis by simp
qed

text \<open>
  The standings do not keep the order of joining. In the run \<open>rejoinEvents\<close> Ann
  joined before Bob, her reconnect moved her record behind Bob's in the player map, both
  scored 1000, and the final broadcast ranks Bob first.
\<close>

theorem rejoin_reorders_ties_counterexample:
  "map_sum id (\<lambda>w. last (outbox w)) (run initWorld rejoinEvents) =
     Inr (ToRoom ''s'',
       QuizFinished [(1, ''Bob'', 1000), (2, ''Ann'', 1000)] [(''Bob'', 1000), (''Ann'', 1000)])"
  by code_simp

section \<open>The answer tally (C10)\<close>

lemma answerStats_fold:
  "answerStats ps = foldl tallyStep [Some (Num 0), Some (Num 0), Some (Num 0), Some (Num 0)] ps"
  by (simp add: answerStats_def tallyStep_def [abs_def])

lemma length_Array_inc: "length xs \<le> length (Array_inc xs a)"
  by (simp add: Array_inc_def)

lemma length_tally_fold: "length xs \<le> length (foldl tallyStep xs ps)"
proof (induction ps arbitrary: xs)
  case Nil
  then show ?case by simp
next
  case (Cons e ps)
  have "length xs \<le> length (tallyStep xs e)"
    by (simp add: tallyStep_def length_Array_inc split: option.splits)
  also have "\<dots> \<le> length (foldl tallyStep (tallyStep xs e) ps)" by (rule Cons.IH)
  finally show ?case by simp
qed

lemma Array_inc_in_range:
  assumes "0 \<le> a" "a \<le> 3"
  shows "Array_inc [Some (Num a0), Some (Num a1), Some (Num a2), Some (Num a3)] a =
     [Some (Num (a0 + (if a = 0 then 1 else 0))), Some (Num (a1 + (if a = 1 then 1 else 0))),
      Some (Num (a2 + (if a = 2 then 1 else 0))), Some (Num (a3 + (if a = 3 then 1 else 0)))]"
proof -
  from assms have "a = 0 \<or> a = 1 \<or> a = 2 \<or> a = 3" by arith
  then show ?thesis
    by (elim disjE) (simp_all add: Array_inc_def postInc_def)
qed

lemma optionCount_Cons:
  "optionCount (e # ps) k = (if currentAnswer (snd e) = Some k then 1 else 0) + optionCount ps k"
  by (simp add: optionCount_def)

lemma tally_fold_length4:
  assumes "length (foldl tallyStep [Some (Num a0), Some (Num a1), Some (Num a2), Some (Num a3)] ps) = 4"
  shows "foldl tallyStep [Some (Num a0), Some (Num a1), Some (Num a2), Some (Num a3)] ps =
     [Some (Num (a0 + optionCount ps 0)), Some (Num (a1 + optionCount ps 1)),
      Some (Num (a2 + optionCount ps 2)), Some (Num (a3 + optionCount ps 3))]"
  using assms
proof (induction ps arbitrary: a0 a1 a2 a3)
  case Nil
  then show ?case by (simp add: optionCount_def)
next
  case (Cons e ps)
  let ?acc = "[Some (Num a0), Some (Num a1), Some (Num a2), Some (Num a3)]"
  show ?case
  proof (cases "currentAnswer (snd e)")
    case None
    then have t: "tallyStep ?acc e = ?acc" by (simp add: tallyStep_def)
    from Cons.prems t have "length (foldl tallyStep ?acc ps) = 4" by simp
    from Cons.IH [OF this] t None show ?thesis by (simp add: optionCount_Cons)
  next
    case (Some a)
    then have t: "tallyStep ?acc e = Array_inc ?acc a" by (simp add: tallyStep_def)
    consider (inr) "0 \<le> a \<and> a \<le> 3" | (grow) "4 \<le> a \<and> a < 4294967295"
      | (outside) "a < 0 \<or> 4294967295 \<le> a" by arith
    then show ?thesis
    proof cases
      case inr
      let ?b0 = "a0 + (if a = 0 then 1 else 0)" and ?b1 = "a1 + (if a = 1 then 1 else 0)"
      let ?b2 = "a2 + (if a = 2 then 1 else 0)" and ?b3 = "a3 + (if a = 3 then 1 else 0)"
      from inr have u: "tallyStep ?acc e = [Some (Num ?b0), Some (Num ?b1), Some (Num ?b2), Some (Num ?b3)]"
        using Array_inc_in_range [of a a0 a1 a2 a3] t by simp
      from Cons.prems u have
        "length (foldl tallyStep [Some (Num ?b0), Some (Num ?b1), Some (Num ?b2), Some (Num ?b3)] ps) = 4"
        by simp
      from Cons.IH [OF this] u Some show ?thesis
        by (simp add: optionCount_Cons)
    next
      case grow
      then have "\<not> nat a < 4" by arith
      then have "\<not> nat a < length ?acc" by simp
      with grow have "4 < length (Array_inc ?acc a)" by (simp add: Array_inc_def)
      with t have "4 < length (tallyStep ?acc e)" by simp
      also have "\<dots> \<le> length (foldl tallyStep (tallyStep ?acc e) ps)" by (rule length_tally_fold)
      finally show ?thesis using Cons.prems by simp
    next
      case outside
      then have u: "tallyStep ?acc e = ?acc" using t by (auto simp: Array_inc_def)
      from Cons.prems u have "length (foldl tallyStep ?acc ps) = 4" by simp
      from Cons.IH [OF this] u Some outside show ?thesis
        by (auto simp: optionCount_Cons)
    qed
  qed
qed

lemma tally_fold_in_range:
  assumes "answersInRange ps"
  shows "length (foldl tallyStep [Some (Num a0), Some (Num a1), Some (Num a2), Some (Num a3)] ps) = 4"
  using assms
proof (induction ps arbitrary: a0 a1 a2 a3)
  case Nil
  then show ?case by simp
next
  case (Cons e ps)
  let ?acc = "[Some (Num a0), Some (Num a1), Some (Num a2), Some (Num a3)]"
  from Cons.prems have r: "answersInRange ps" by (simp add: answersInRange_def)
  show ?case
  proof (cases "currentAnswer (snd e)")
    case None
    with Cons.IH [OF r, of a0 a1 a2 a3] show ?thesis by (simp add: tallyStep_def)
  next
    case (Some a)
    with Cons.prems have "0 \<le> a \<and> a \<le> 3" by (simp add: answersInRange_def)
    then have "tallyStep ?acc e =
       [Some (Num (a0 + (if a = 0 then 1 else 0))), Some (Num (a1 + (if a = 1 then 1 else 0))),
        Some (Num (a2 + (if a = 2 then 1 else 0))), Some (Num (a3 + (if a = 3 then 1 else 0)))]"
      using Array_inc_in_range [of a a0 a1 a2 a3] Some by (simp add: tallyStep_def)
    with Cons.IH [OF r] show ?thesis by simp
  qed
qed

lemma optionCount_Nil: "optionCount [] k = 0"
  by (simp add: optionCount_def)

lemma counted_le_answered:
  "optionCount ps 0 + optionCount ps 1 + optionCount ps 2 + optionCount ps 3 \<le> int (answeredCount ps)"
  by (induction ps) (auto simp: optionCount_Cons optionCount_Nil answeredCount_def)

lemma counted_eq_answered:
  "answersInRange ps =
     (optionCount ps 0 + optionCount ps 1 + optionCount ps 2 + optionCount ps 3 = int (answeredCount ps))"
proof (induction ps)
  case Nil
  then show ?case by (simp add: optionCount_Nil answeredCount_def answersInRange_def)
next
  case (Cons e ps)
  define n where "n = optionCount ps 0 + optionCount ps 1 + optionCount ps 2 + optionCount ps 3"
  have ih: "answersInRange ps = (n = int (answeredCount ps))"
    using Cons.IH by (simp add: n_def)
  have le: "n \<le> int (answeredCount ps)"
    using counted_le_answered [of ps] by (simp add: n_def)
  have ac: "int (answeredCount (e # ps)) =
     (if currentAnswer (snd e) = None then 0 else 1) + int (answeredCount ps)"
    by (simp add: answeredCount_def)
  have ar: "answersInRange (e # ps) =
     ((case currentAnswer (snd e) of None \<Rightarrow> True | Some a \<Rightarrow> 0 \<le> a \<and> a \<le> 3) \<and> answersInRange ps)"
    by (simp add: answersInRange_def)
  show ?case
  proof (cases "currentAnswer (snd e)")
    case None
    then have step: "optionCount (e # ps) 0 + optionCount (e # ps) 1 + optionCount (e # ps) 2 +
        optionCount (e # ps) 3 = n"
      by (simp add: optionCount_Cons n_def)
    show ?thesis unfolding step ac ar ih using None by simp
  next
    case (Some a)
    show ?thesis
    proof (cases "0 \<le> a \<and> a \<le> 3")
      case True
      then have "a = 0 \<or> a = 1 \<or> a = 2 \<or> a = 3" by arith
      with Some have step: "optionCount (e # ps) 0 + optionCount (e # ps) 1 +
          optionCount (e # ps) 2 + optionCount (e # ps) 3 = n + 1"
        by (elim disjE) (simp_all add: optionCount_Cons n_def)
      show ?thesis unfolding step ac ar ih using Some True by simp
    next
      case False
      then have "a \<noteq> 0 \<and> a \<noteq> 1 \<and> a \<noteq> 2 \<and> a \<noteq> 3" by arith
      with Some have step: "optionCount (e # ps) 0 + optionCount (e # ps) 1 +
          optionCount (e # ps) 2 + optionCount (e # ps) 3 = n"
        by (simp add: optionCount_Cons n_def)
      show ?thesis unfolding step ac ar ih using Some False le by auto
    qed
  qed
qed

lemma tally_well_formed_iff: "wellFormedTally (answerStats ps) ps = answersInRange ps"
proof
  assume wf: "wellFormedTally (answerStats ps) ps"
  then have "length (answerStats ps) = 4" by (simp add: wellFormedTally_def)
  then have eq: "answerStats ps = [Some (Num (0 + optionCount ps 0)), Some (Num (0 + optionCount ps 1)),
      Some (Num (0 + optionCount ps 2)), Some (Num (0 + optionCount ps 3))]"
    unfolding answerStats_fold by (rule tally_fold_length4)
  from wf have "optionCount ps 0 + optionCount ps 1 + optionCount ps 2 + optionCount ps 3 =
      int (answeredCount ps)"
    unfolding eq by (simp add: wellFormedTally_def countOf_def)
  then show "answersInRange ps" using counted_eq_answered [of ps] by blast
next
  assume r: "answersInRange ps"
  then have "length (answerStats ps) = 4"
    unfolding answerStats_fold by (rule tally_fold_in_range)
  then have eq: "answerStats ps = [Some (Num (0 + optionCount ps 0)), Some (Num (0 + optionCount ps 1)),
      Some (Num (0 + optionCount ps 2)), Some (Num (0 + optionCount ps 3))]"
    unfolding answerStats_fold by (rule tally_fold_length4)
  from r have "optionCount ps 0 + optionCount ps 1 + optionCount ps 2 + optionCount ps 3 =
      int (answeredCount ps)"
    using counted_eq_answered [of ps] by blast
  then show "wellFormedTally (answerStats ps) ps"
    unfolding eq by (simp add: wellFormedTally_def countOf_def)
qed

lemma tally_in_range: "answersInRange ps \<Longrightarrow> answerStats ps = tallyOf ps"
proof -
  assume r: "answersInRange ps"
  then have "length (answerStats ps) = 4"
    unfolding answerStats_fold by (rule tally_fold_in_range)
  then have "answerStats ps = [Some (Num (0 + optionCount ps 0)), Some (Num (0 + optionCount ps 1)),
      Some (Num (0 + optionCount ps 2)), Some (Num (0 + optionCount ps 3))]"
    unfolding answerStats_fold by (rule tally_fold_length4)
  then show ?thesis by (simp add: tallyOf_def)
qed

text \<open>
  C10. \<open>player:answer\<close> stores whatever payload is submitted, and the tally sent to the
  host is \<open>answerStats\<close> of the stored answers. That tally is well formed exactly when
  every stored answer is one of 0, 1, 2, 3; it is then the per-option count.
\<close>

theorem answer_tally_unvalidated:
  "(sessions_get w (sessionId (sockets w c)) = Some s \<and> status s = playing \<and>
    Map_get (players s) c = Some p \<longrightarrow>
      (\<exists>s' p'. heap (playerAnswer c a w) (sessId s) = Some s' \<and>
         Map_get (players s') c = Some p' \<and> currentAnswer p' = a \<and>
         last (outbox (playerAnswer c a w)) =
           (ToHost (hostSocketId s), HostAnswerStats (answerStats (players s'))))) \<and>
   wellFormedTally (answerStats ps) ps = answersInRange ps \<and>
   (answersInRange ps \<longrightarrow> answerStats ps = tallyOf ps)"
proof -
  have stored: "\<exists>s' p'. heap (playerAnswer c a w) (sessId s) = Some s' \<and>
         Map_get (players s') c = Some p' \<and> currentAnswer p' = a \<and>
         last (outbox (playerAnswer c a w)) =
           (ToHost (hostSocketId s), HostAnswerStats (answerStats (players s')))"
    if h: "sessions_get w (sessionId (sockets w c)) = Some s \<and> status s = playing \<and>
           Map_get (players s) c = Some p"
  proof -
    let ?p' = "recordAnswer (timeLeft s) a p"
    let ?s' = "s\<lparr>players := Map_set (players s) c ?p'\<rparr>"
    from h have "heap (playerAnswer c a w) (sessId s) = Some ?s' \<and>
        last (outbox (playerAnswer c a w)) =
          (ToHost (hostSocketId s), HostAnswerStats (answerStats (players ?s')))"
      using playerAnswer_effect [of w c s p a] by simp
    moreover have "Map_get (players ?s') c = Some ?p'" by (simp add: Map_get_set_same)
    moreover have "currentAnswer ?p' = a" by (simp add: recordAnswer_def)
    ultimately show ?thesis
      by (intro exI [of _ ?s'] exI [of _ ?p']) simp
  qed
  from stored tally_well_formed_iff [of ps] tally_in_range [of ps] show ?thesis
    by (intro conjI impI) (assumption | simp)+
qed

theorem answer_tally_unvalidated_witness:
  "(\<exists>s' p'. heap (playerAnswer ''p'' (Some 7) (worldAfter playingEvents)) ''s'' = Some s' \<and>
      Map_get (players s') ''p'' = Some p' \<and> currentAnswer p' = Some 7) \<and>
   \<not> wellFormedTally
        (answerStats [(''p'', \<lparr>name = ''Ann'', score = 0, currentAnswer = Some 7, answerTime = Some 8\<rparr>)])
        [(''p'', \<lparr>name = ''Ann'', score = 0, currentAnswer = Some 7, answerTime = Some 8\<rparr>)] \<and>
   answerStats [(''p'', \<lparr>name = ''Ann'', score = 0, currentAnswer = Some 2, answerTime = Some 8\<rparr>)] =
     [Some (Num 0), Some (Num 0), Some (Num 1), Some (Num 0)]"
proof -
  let ?w = "worldAfter playingEvents"
  let ?s = "the (heap ?w ''s'')"
  let ?p = "\<lparr>name = ''Ann'', score = 0, currentAnswer = None, answerTime = None\<rparr>"
  let ?bad = "[(''p'', \<lparr>name = ''Ann'', score = 0, currentAnswer = Some 7, answerTime = Some 8\<rparr>)]"
  let ?good = "[(''p'', \<lparr>name = ''Ann'', score = 0, currentAnswer = Some 2, answerTime = Some 8\<rparr>)]"
  have h: "sessions_get ?w (sessionId (sockets ?w ''p'')) = Some ?s \<and> status ?s = playing \<and>
     Map_get (players ?s) ''p'' = Some ?p"
    by code_simp
  have k: "sessId ?s = ''s''" by code_simp
  from h obtain s' p' where "heap (playerAnswer ''p'' (Some 7) ?w) (sessId ?s) = Some s' \<and>
      Map_get (players s') ''p'' = Some p' \<and> currentAnswer p' = Some 7"
    using answer_tally_unvalidated [where w = ?w and c = "''p''" and s = ?s and p = ?p
        and a = "Some 7"]
    by blast
  with k have 1: "\<exists>s' p'. heap (playerAnswer ''p'' (Some 7) ?w) ''s'' = Some s' \<and>
      Map_get (players s') ''p'' = Some p' \<and> currentAnswer p' = Some 7"
    by (intro exI [of _ s'] exI [of _ p']) simp
  have "\<not> answersInRange ?bad" by (simp add: answersInRange_def)
  then have 2: "\<not> wellFormedTally (answerStats ?bad) ?bad"
    using answer_tally_unvalidated [where ps = ?bad] by blast
  have "answersInRange ?good" by (simp add: answersInRange_def)
  then have "answerStats ?good = tallyOf ?good"
    using answer_tally_unvalidated [where ps = ?good] by blast
  also have "\<dots> = [Some (Num 0), Some (Num 0), Some (Num 1), Some (Num 0)]"
    by (simp add: tallyOf_def optionCount_def)
  finally have 3: "answerStats ?good = [Some (Num 0), Some (Num 0), Some (Num 1), Some (Num 0)]" .
  from 1 2 3 show ?thesis by blast
qed

section \<open>Lifecycle status (C2)\<close>

text \<open>An answer outside \<open>playing\<close> changes nothing at all.\<close>

lemma answer_outside_playing:
  "sessions_get w (sessionId (sockets w c)) = Some s \<Longrightarrow> status s \<noteq> playing \<Longrightarrow>
     playerAnswer c a w = w"
  by (cases "sessionId (sockets w c)") (simp_all add: playerAnswer_def)

text \<open>
  C2. \<open>host:start\<close> does not look at the status. After a one-question quiz has
  finished (status \<open>finished\<close>, index 1), a further start by the host sets the status
  back to \<open>playing\<close> and the index to 0; a start while the second question is awaited
  (status \<open>playing\<close>, index 1) resets the index to 0 as well.
\<close>

theorem start_after_finish_restarts:
  "map_sum id (\<lambda>w. map_option (\<lambda>s. (status s, currentQuestionIndex s)) (heap w ''s''))
     (run initWorld finishedEvents) = Inr (Some (finished, 1)) \<and>
   map_sum id (\<lambda>w. map_option (\<lambda>s. (status s, currentQuestionIndex s)) (heap w ''s''))
     (run initWorld (finishedEvents @ [HostStart ''h'' None])) = Inr (Some (playing, 0)) \<and>
   map_sum id (\<lambda>w. map_option (\<lambda>s. (status s, currentQuestionIndex s)) (heap w ''s''))
     (run initWorld scoredEvents) = Inr (Some (playing, 1)) \<and>
   map_sum id (\<lambda>w. map_option (\<lambda>s. (status s, currentQuestionIndex s)) (heap w ''s''))
     (run initWorld (scoredEvents @ [HostStart ''h'' None])) = Inr (Some (playing, 0))"
  by code_simp

section \<open>Skipping (C3)\<close>

text \<open>
  A cleared handle never runs, a skip by anyone but the bound host does nothing, and a
  skip that finds a question timer in \<open>session.timer\<close> clears it before the one call
  of \<open>endQuestion\<close>.
\<close>

lemma fire_cancelled: "timers w h = None \<Longrightarrow> fire h w = Inr w"
  by (simp add: fire_def)

lemma skip_not_host:
  "sessions_get w (sessionId (sockets w c)) = Some s \<Longrightarrow> Some c \<noteq> hostSocketId s \<Longrightarrow>
     hostSkip c w = Inr w"
  by (simp add: hostSkip_def)

lemma skip_cancels_question_timer:
  assumes "sessions_get w (sessionId (sockets w c)) = Some s" "Some c = hostSocketId s"
    "timer s = Some h" "h < nextHandle w" "hostSkip c w = Inr w'"
  shows "timers w' h = None \<and> fire h w' = Inr w' \<and>
     endQuestion (s\<lparr>timer := None\<rparr>) (store (s\<lparr>timer := None\<rparr>) (clearInterval (Some h) w)) = Inr w'"
proof -
  from assms have e: "endQuestion (s\<lparr>timer := None\<rparr>)
      (store (s\<lparr>timer := None\<rparr>) (clearInterval (Some h) w)) = Inr w'"
    by (simp add: hostSkip_def)
  with assms(4) have "timers w' h = None"
    by (auto simp: endQuestion_def Let_def setTimer_def store_def emit_def clearInterval_def
        split: option.splits)
  with e show ?thesis by (simp add: fire_cancelled)
qed

text \<open>
  C3. \<open>host:skip\<close> checks neither the status nor that a question timer runs. After
  the first question was answered and skipped (score 1000, index 1, no question timer),
  a second skip calls \<open>endQuestion\<close> again: the stale answer is scored against the
  second question (score 2000) and the index moves to 2, though that question was never
  sent. A skip in the lobby moves the index to 1, and a skip after the quiz has finished
  throws the uncaught \<open>TypeError\<close>.
\<close>

theorem skip_without_question_countdown:
  "map_sum id (\<lambda>w. map_option (\<lambda>s. (status s, currentQuestionIndex s, timer s, map (score \<circ> snd) (players s)))
       (heap w ''s''))
     (run initWorld scoredEvents) = Inr (Some (playing, 1, None, [1000])) \<and>
   map_sum id (\<lambda>w. map_option (\<lambda>s. (status s, currentQuestionIndex s, timer s, map (score \<circ> snd) (players s)))
       (heap w ''s''))
     (run initWorld (scoredEvents @ [HostSkip ''h''])) = Inr (Some (playing, 2, None, [2000])) \<and>
   map_sum id (\<lambda>w. map_option (\<lambda>s. (status s, currentQuestionIndex s, timer s, map (score \<circ> snd) (players s)))
       (heap w ''s''))
     (run initWorld (lobbyEvents @ [HostSkip ''h''])) = Inr (Some (lobby, 1, None, [0])) \<and>
   map_sum id (\<lambda>w. ()) (run initWorld (finishedEvents @ [HostSkip ''h''])) = Inl TypeError"
  by code_simp

section \<open>Host disconnect (C6)\<close>

text \<open>
  Whatever the status, the disconnect of a socket flagged as host clears
  \<open>session.timer\<close>, announces the end to the room and deletes the session.
\<close>

lemma disconnect_host:
  assumes "sessionId (sockets w c) = Some i" "sessions_get w (Some i) = Some s"
    "isHost (sockets w c)"
  shows "sessions (disconnect c w) = sessions w - {i} \<and>
     timers (disconnect c w) = timers (clearInterval (timer s) w) \<and>
     last (outbox (disconnect c w)) = (ToRoom i, SessionEnded ''Host disconnected'')"
  using assms by (simp add: disconnect_def Let_def emit_def clearInterval_def split: option.splits)

text \<open>
  C6. The countdown between two questions is not in \<open>session.timer\<close>. When the host
  leaves during it, the session is deleted and \<open>session:ended\<close> is broadcast, but the
  countdown (handle 1) stays live; six ticks later it sends the second question of the
  deleted session and starts a question timer (handle 2) for it.
\<close>

theorem host_disconnect_leaves_countdown:
  "map_sum id (\<lambda>w. (sessions w, last (outbox w), map (timers w) [0..<nextHandle w]))
     (run initWorld hostLeavesEvents) =
     Inr ({}, (ToRoom ''s'', SessionEnded ''Host disconnected''),
          [None, Some (CountdownTick ''s'' 5 False)]) \<and>
   map_sum id (\<lambda>w. (sessions w, last (outbox w), map (timers w) [0..<nextHandle w]))
     (run initWorld (hostLeavesEvents @ replicate 6 (TimerFires 1))) =
     Inr ({}, (ToHost (Some ''h''), HostCorrectAnswer 1),
          [None, None, Some (QuestionTick ''s'')])"
  by code_simp

section \<open>One countdown per session (C9)\<close>

text \<open>
  C9. \<open>sendQuestion\<close> and \<open>endQuestion\<close> clear nothing before \<open>setInterval\<close>.
  Two starts in a row leave two question timers of the session live, and two skips in a
  row leave two inter-question countdowns live.
\<close>

theorem two_countdowns_at_once:
  "map_sum id (\<lambda>w. map (timers w) (activeCountdowns w ''s''))
     (run initWorld (lobbyEvents @ [HostStart ''h'' None, HostStart ''h'' None])) =
     Inr [Some (QuestionTick ''s''), Some (QuestionTick ''s'')] \<and>
   map_sum id (\<lambda>w. map (timers w) (activeCountdowns w ''s''))
     (run initWorld (scoredEvents @ [HostSkip ''h''])) =
     Inr [Some (CountdownTick ''s'' 5 False), Some (CountdownTick ''s'' 5 False)]"
  by code_simp

end
